theory Spec2Isabelle
  imports Complex_Main
begin

section \<open>Conversation state machine (state-machine.service.ts)\<close>

text \<open>
  The Prisma enum \<open>ConversationState\<close> and the constant table \<open>VALID_TRANSITIONS\<close>.
  The table is a total record over the enum, so the fallback \<open>|| []\<close> of
  \<open>isValidTransition\<close> is never taken.
\<close>

datatype ConversationState =
    IDLE | LISTENING | TRANSCRIBING | INTENT_CLASSIFIED | CLARIFICATION_REQUIRED
  | CONFIRMATION_REQUIRED | READY_TO_EXECUTE | EXECUTING | COMPLETED | ERROR

fun VALID_TRANSITIONS :: "ConversationState \<Rightarrow> ConversationState list" where
  "VALID_TRANSITIONS IDLE = [LISTENING]"
| "VALID_TRANSITIONS LISTENING = [TRANSCRIBING, IDLE, ERROR]"
| "VALID_TRANSITIONS TRANSCRIBING = [INTENT_CLASSIFIED, ERROR]"
| "VALID_TRANSITIONS INTENT_CLASSIFIED =
     [CLARIFICATION_REQUIRED, CONFIRMATION_REQUIRED, READY_TO_EXECUTE, ERROR]"
| "VALID_TRANSITIONS CLARIFICATION_REQUIRED = [LISTENING, IDLE]"
| "VALID_TRANSITIONS CONFIRMATION_REQUIRED = [READY_TO_EXECUTE, IDLE, ERROR]"
| "VALID_TRANSITIONS READY_TO_EXECUTE = [EXECUTING, ERROR]"
| "VALID_TRANSITIONS EXECUTING = [COMPLETED, ERROR]"
| "VALID_TRANSITIONS COMPLETED = [IDLE]"
| "VALID_TRANSITIONS ERROR = [IDLE, LISTENING]"

definition isValidTransition :: "ConversationState \<Rightarrow> ConversationState \<Rightarrow> bool" where
  "isValidTransition fromState toState \<longleftrightarrow> toState \<in> set (VALID_TRANSITIONS fromState)"

fun state_name :: "ConversationState \<Rightarrow> string" where
  "state_name IDLE = ''IDLE''"
| "state_name LISTENING = ''LISTENING''"
| "state_name TRANSCRIBING = ''TRANSCRIBING''"
| "state_name INTENT_CLASSIFIED = ''INTENT_CLASSIFIED''"
| "state_name CLARIFICATION_REQUIRED = ''CLARIFICATION_REQUIRED''"
| "state_name CONFIRMATION_REQUIRED = ''CONFIRMATION_REQUIRED''"
| "state_name READY_TO_EXECUTE = ''READY_TO_EXECUTE''"
| "state_name EXECUTING = ''EXECUTING''"
| "state_name COMPLETED = ''COMPLETED''"
| "state_name ERROR = ''ERROR''"

text \<open>
  The \<open>conversation\<close> table, as far as the state machine reads and writes it: the primary
  key, the \<open>state\<close> column and the \<open>updatedAt\<close> column (milliseconds since the epoch).
  A table is the list of its rows. The Prisma schema is not part of the sources, so a write
  of \<open>state\<close> is modelled as changing that column only.
\<close>

record Conversation =
  conv_id :: string
  state :: ConversationState
  updatedAt :: int

type_synonym conversation_table = "Conversation list"

definition findUnique :: "conversation_table \<Rightarrow> string \<Rightarrow> Conversation option" where
  "findUnique tbl cid = find (\<lambda>c. conv_id c = cid) tbl"

text \<open>\<open>prisma.conversation.update\<close> rejects when no row has the id.\<close>

definition update_state ::
  "conversation_table \<Rightarrow> string \<Rightarrow> ConversationState \<Rightarrow> conversation_table option" where
  "update_state tbl cid s =
     (if findUnique tbl cid = None then None
      else Some (map (\<lambda>c. if conv_id c = cid then c\<lparr>state := s\<rparr> else c) tbl))"

datatype sm_error =
    FailedToTransitionState
  | FailedToRetrieveState
  | FailedToResetState
  | FailedToForceTransition
  | FailedToAddMessage

record TransitionResult =
  success :: bool
  currentState :: ConversationState
  message :: "string option"

text \<open>
  \<open>transitionState\<close>: the result and the table afterwards. Every exception inside the
  \<open>try\<close> block is rethrown as \<open>Failed to transition state\<close>.
\<close>

definition transitionState ::
  "conversation_table \<Rightarrow> string \<Rightarrow> ConversationState
     \<Rightarrow> (sm_error + TransitionResult) \<times> conversation_table" where
  "transitionState tbl conversationId newState =
     (case findUnique tbl conversationId of
        None \<Rightarrow> (Inl FailedToTransitionState, tbl)
      | Some conversation \<Rightarrow>
          (let cur = state conversation in
           if \<not> isValidTransition cur newState then
             (Inr \<lparr>success = False, currentState = cur,
                   message = Some (''Invalid state transition from '' @ state_name cur
                                     @ '' to '' @ state_name newState)\<rparr>, tbl)
           else
             (case update_state tbl conversationId newState of
                None \<Rightarrow> (Inl FailedToTransitionState, tbl)
              | Some tbl' \<Rightarrow>
                  (Inr \<lparr>success = True, currentState = newState, message = None\<rparr>, tbl'))))"

definition getCurrentState :: "conversation_table \<Rightarrow> string \<Rightarrow> sm_error + ConversationState" where
  "getCurrentState tbl conversationId =
     (case findUnique tbl conversationId of
        None \<Rightarrow> Inl FailedToRetrieveState
      | Some conversation \<Rightarrow> Inr (state conversation))"


text \<open>
  \<open>handleError\<close> of the state machine writes \<open>ERROR\<close>; its \<open>catch\<close> logs and returns,
  so it never throws.
\<close>

definition sm_handleError :: "conversation_table \<Rightarrow> string \<Rightarrow> conversation_table" where
  "sm_handleError tbl conversationId =
     (case update_state tbl conversationId ERROR of None \<Rightarrow> tbl | Some tbl' \<Rightarrow> tbl')"

definition forceTransition ::
  "conversation_table \<Rightarrow> string \<Rightarrow> ConversationState \<Rightarrow> (sm_error + unit) \<times> conversation_table" where
  "forceTransition tbl conversationId newState =
     (case update_state tbl conversationId newState of
        None \<Rightarrow> (Inl FailedToForceTransition, tbl)
      | Some tbl' \<Rightarrow> (Inr (), tbl'))"

text \<open>
  Dates. A \<open>Date\<close> holds a time value, the milliseconds since the epoch. The setters
  \<open>setMinutes\<close> and \<open>setHours\<close> work on the fields of the local time: the time value
  is taken to local time (\<open>LocalTime\<close>), the field is replaced, and the result is taken
  back (\<open>UTC\<close>) and clipped to the range of a \<open>Date\<close> (\<open>TimeClip\<close>). \<open>LocalTime\<close> and
  \<open>UTC\<close> are the two operations of the language that depend on the time zone of the
  host; they are parameters of the model.
\<close>

record TimeZone =
  LocalTime :: "int \<Rightarrow> int"
  UTC :: "int \<Rightarrow> int"

definition TimeClip :: "int \<Rightarrow> int option" where
  "TimeClip t = (if \<bar>t\<bar> > 8640000000000000 then None else Some t)"

text \<open>
  \<open>d.setMinutes(d.getMinutes() - n)\<close> and \<open>d.setHours(d.getHours() + n)\<close> on a date with
  time value \<open>t\<close>, for an integer \<open>n\<close>: the other fields of the local time are kept,
  so the local time moves by \<open>n\<close> minutes or hours. \<open>None\<close> is the invalid date.
\<close>

definition minutes_earlier :: "TimeZone \<Rightarrow> int \<Rightarrow> int \<Rightarrow> int option" where
  "minutes_earlier tz t n = TimeClip (UTC tz (LocalTime tz t - n * 60000))"

definition hours_later :: "TimeZone \<Rightarrow> int \<Rightarrow> int \<Rightarrow> int" where
  "hours_later tz t n = UTC tz (LocalTime tz t + n * 3600000)"

text \<open>
  \<open>cleanupStuckConversations\<close> at time \<open>now\<close>: the cutoff is \<open>now\<close> with the minutes of
  its local time moved back by \<open>maxAgeMinutes\<close>; \<open>updateMany\<close> sets the state of the rows
  whose state is not in \<open>['IDLE', 'COMPLETED']\<close> and whose \<open>updatedAt\<close> is before the
  cutoff, and the count of matched rows is returned. With an invalid cutoff the query is
  rejected, and the \<open>catch\<close> block returns 0.
\<close>

definition stuck :: "int \<Rightarrow> Conversation \<Rightarrow> bool" where
  "stuck cutoffTime c \<longleftrightarrow> state c \<notin> set [IDLE, COMPLETED] \<and> updatedAt c < cutoffTime"

definition cleanupStuckConversations ::
  "TimeZone \<Rightarrow> int \<Rightarrow> int \<Rightarrow> conversation_table \<Rightarrow> nat \<times> conversation_table" where
  "cleanupStuckConversations tz now maxAgeMinutes tbl =
     (case minutes_earlier tz now maxAgeMinutes of
        None \<Rightarrow> (0, tbl)
      | Some cutoffTime \<Rightarrow>
          (length (filter (stuck cutoffTime) tbl),
           map (\<lambda>c. if stuck cutoffTime c then c\<lparr>state := ERROR\<rparr> else c) tbl))"

definition default_maxAgeMinutes :: int where
  "default_maxAgeMinutes = 30"

section \<open>Action intents and their parameters\<close>

text \<open>
  \<open>parameters\<close> is a \<open>Record<string, any>\<close> filled by the classifier. The model reads it
  through the fields that the services destructure; each field is either absent (\<open>None\<close>,
  the JavaScript \<open>undefined\<close>) or holds a value of the type its handler is written for:
  numbers are JSON integers, \<open>values\<close> is an array of rows of cells. JSON values of
  other types in these fields, fractional numbers and the coercions they would trigger are
  outside the model.
\<close>

datatype cell = CellString string | CellNumber int | CellBool bool | CellNull

record Format =
  bold :: "bool option"
  italic :: "bool option"
  underline :: "bool option"
  fontSize :: "int option"
  numberFormat :: "string option"

record Parameters =
  title :: "string option"
  sheetNames :: "string list option"
  range :: "string option"
  values' :: "cell list list option"
  sheetName :: "string option"
  format :: "Format option"
  sheetId :: "int option"
  startIndex :: "int option"
  count :: "int option"
  columnIndex :: "int option"
  ascending :: "bool option"
  mergeType :: "string option"
  rowCount :: "int option"
  columnCount :: "int option"
  chartType :: "string option"
  dataRange :: "string option"
  formula :: "string option"

definition no_parameters :: Parameters where
  "no_parameters =
     \<lparr>title = None, sheetNames = None, range = None, values' = None, sheetName = None,
      format = None, sheetId = None, startIndex = None, count = None, columnIndex = None,
      ascending = None, mergeType = None, rowCount = None, columnCount = None,
      chartType = None, dataRange = None, formula = None\<rparr>"

text \<open>
  \<open>SheetActionIntent\<close> (validation schema \<open>sheetActionIntentSchema\<close>). The confidence
  is a number in \<open>[0, 1]\<close>, modelled as a real.
\<close>

record SheetActionIntent =
  action :: string
  parameters :: Parameters
  confirmationRequired :: bool
  clarificationNeeded :: "string option"
  confidence :: real

section \<open>Dry-run service (dry-run.service.ts)\<close>

datatype RiskLevel = Low | Medium | High

text \<open>A JavaScript number that is an integer or \<open>NaN\<close> (\<open>None\<close>).\<close>

type_synonym jsnumber = "int option"

record EstimatedImpact =
  cells :: int
  rows :: "int option"
  columns :: "int option"

text \<open>
  \<open>DryRunResult\<close> without its \<open>preview\<close> text, which is for display only. Where the
  evaluation of a preview can throw, the handler below throws.
\<close>

record DryRunResult =
  cells_affected :: "string option list"
  rows_affected :: "jsnumber list option"
  columns_affected :: "string list option"
  risk_level :: RiskLevel
  reversible :: bool
  warnings :: "string list option"
  estimated_impact :: EstimatedImpact

datatype js_error = TypeError | RangeError | UnsupportedAction string

text \<open>
  \<open>Array.from({ length: count }, f)\<close>: the length is \<open>ToLength(count)\<close>, and the array
  constructor throws a \<open>RangeError\<close> (invalid array length) for a length above
  \<open>2^32 - 1\<close>. That is the bound of the language; an engine that runs out of memory on
  a smaller length is outside the model.
\<close>

definition ToLength :: "int \<Rightarrow> int" where
  "ToLength n = (if n \<le> 0 then 0 else min n (2 ^ 53 - 1))"

definition Array_from :: "int \<Rightarrow> (int \<Rightarrow> 'a) \<Rightarrow> js_error + 'a list" where
  "Array_from len f =
     (if ToLength len > 2 ^ 32 - 1 then Inl RangeError
      else Inr (map (\<lambda>i. f (int i)) [0 ..< nat (ToLength len)]))"

text \<open>\<open>expandRange\<close> returns the range as it is, in a one-element array.\<close>

definition expandRange :: "string option \<Rightarrow> string option list" where
  "expandRange r = [r]"

text \<open>
  \<open>countCellsInRange\<close>: \<open>values.reduce(...)\<close> throws a \<open>TypeError\<close> when \<open>values\<close>
  is \<open>undefined\<close>.
\<close>

definition countCellsInRange :: "cell list list option \<Rightarrow> js_error + int" where
  "countCellsInRange vs =
     (case vs of
        None \<Rightarrow> Inl TypeError
      | Some rws \<Rightarrow> Inr (fold (\<lambda>row sum. sum + int (length row)) rws 0))"

text \<open>\<open>describeFormat\<close> reads \<open>format.bold\<close> first: a \<open>TypeError\<close> on \<open>undefined\<close>.\<close>

definition describeFormat_throws :: "Format option \<Rightarrow> bool" where
  "describeFormat_throws f \<longleftrightarrow> f = None"

text \<open>
  \<open>indexToColumn\<close>: the \<open>while (temp >= 0)\<close> loop. \<open>NaN >= 0\<close> is false, so the
  result for \<open>NaN\<close> (an absent index) is the empty string.
\<close>

function indexToColumn_loop :: "int \<Rightarrow> string \<Rightarrow> string" where
  "indexToColumn_loop temp column =
     (if temp \<ge> 0
      then indexToColumn_loop (temp div 26 - 1) (char_of (temp mod 26 + 65) # column)
      else column)"
  by pat_completeness auto
termination
  by (relation "measure (\<lambda>(temp, column). nat (temp + 1))") auto

definition indexToColumn :: "jsnumber \<Rightarrow> string" where
  "indexToColumn index = (case index of None \<Rightarrow> [] | Some n \<Rightarrow> indexToColumn_loop n [])"

text \<open>Addition of JavaScript numbers: \<open>undefined + i\<close> is \<open>NaN\<close>.\<close>

definition js_add :: "jsnumber \<Rightarrow> int \<Rightarrow> jsnumber" where
  "js_add a b = map_option (\<lambda>n. n + b) a"

text \<open>The destructuring default \<open>count = 1\<close> applies when the field is \<open>undefined\<close>.\<close>

definition count_or_1 :: "Parameters \<Rightarrow> int" where
  "count_or_1 params = (case count params of None \<Rightarrow> 1 | Some c \<Rightarrow> c)"

definition simulateCreateSpreadsheet :: "Parameters \<Rightarrow> js_error + DryRunResult" where
  "simulateCreateSpreadsheet params =
     Inr \<lparr>cells_affected = [], rows_affected = None, columns_affected = None,
          risk_level = Low, reversible = False, warnings = None,
          estimated_impact = \<lparr>cells = 0, rows = None, columns = None\<rparr>\<rparr>"

definition simulateUpdateCells :: "Parameters \<Rightarrow> js_error + DryRunResult" where
  "simulateUpdateCells params =
     (case countCellsInRange (values' params) of
        Inl e \<Rightarrow> Inl e
      | Inr cellCount \<Rightarrow>
          Inr \<lparr>cells_affected = expandRange (range params),
               rows_affected = None, columns_affected = None,
               risk_level = (if cellCount > 100 then Medium else Low),
               reversible = True,
               warnings = (if cellCount > 100
                           then Some [''Large update detected - affects more than 100 cells'']
                           else None),
               estimated_impact = \<lparr>cells = cellCount, rows = None, columns = None\<rparr>\<rparr>)"

definition simulateFormatCells :: "Parameters \<Rightarrow> js_error + DryRunResult" where
  "simulateFormatCells params =
     (let affectedCells = expandRange (range params) in
      if describeFormat_throws (format params) then Inl TypeError
      else
        Inr \<lparr>cells_affected = affectedCells, rows_affected = None, columns_affected = None,
             risk_level = Low, reversible = True, warnings = None,
             estimated_impact = \<lparr>cells = int (length affectedCells), rows = None,
                                  columns = None\<rparr>\<rparr>)"

definition simulateInsertRows :: "Parameters \<Rightarrow> js_error + DryRunResult" where
  "simulateInsertRows params =
     (let cnt = count_or_1 params in
      case Array_from cnt (\<lambda>i. js_add (js_add (startIndex params) i) 1) of
        Inl e \<Rightarrow> Inl e
      | Inr rws \<Rightarrow>
          Inr \<lparr>cells_affected = [], rows_affected = Some rws, columns_affected = None,
               risk_level = (if cnt > 10 then Medium else Low),
               reversible = True,
               warnings = (if cnt > 10 then Some [''Inserting more than 10 rows''] else None),
               estimated_impact = \<lparr>cells = 0, rows = Some cnt, columns = None\<rparr>\<rparr>)"

definition simulateInsertColumns :: "Parameters \<Rightarrow> js_error + DryRunResult" where
  "simulateInsertColumns params =
     (let cnt = count_or_1 params in
      case Array_from cnt (\<lambda>i. indexToColumn (js_add (startIndex params) i)) of
        Inl e \<Rightarrow> Inl e
      | Inr cols \<Rightarrow>
          Inr \<lparr>cells_affected = [], rows_affected = None, columns_affected = Some cols,
               risk_level = (if cnt > 5 then Medium else Low),
               reversible = True,
               warnings = (if cnt > 5 then Some [''Inserting more than 5 columns''] else None),
               estimated_impact = \<lparr>cells = 0, rows = None, columns = Some cnt\<rparr>\<rparr>)"

definition simulateDeleteRows :: "Parameters \<Rightarrow> js_error + DryRunResult" where
  "simulateDeleteRows params =
     (let cnt = count_or_1 params in
      case Array_from cnt (\<lambda>i. js_add (js_add (startIndex params) i) 1) of
        Inl e \<Rightarrow> Inl e
      | Inr rws \<Rightarrow>
          Inr \<lparr>cells_affected = [], rows_affected = Some rws, columns_affected = None,
               risk_level = High,
               reversible = True,
               warnings = Some [''This is a destructive action'',
                                ''All data in these rows will be removed''],
               estimated_impact = \<lparr>cells = 0, rows = Some cnt, columns = None\<rparr>\<rparr>)"

definition simulateDeleteColumns :: "Parameters \<Rightarrow> js_error + DryRunResult" where
  "simulateDeleteColumns params =
     (let cnt = count_or_1 params in
      Inr \<lparr>cells_affected = [], rows_affected = None, columns_affected = None,
           risk_level = High,
           reversible = True,
           warnings = Some [''This is a destructive action'',
                            ''All data in these columns will be removed''],
           estimated_impact = \<lparr>cells = 0, rows = None, columns = Some cnt\<rparr>\<rparr>)"

definition simulateClearRange :: "Parameters \<Rightarrow> js_error + DryRunResult" where
  "simulateClearRange params =
     (let affectedCells = expandRange (range params) in
      Inr \<lparr>cells_affected = affectedCells, rows_affected = None, columns_affected = None,
           risk_level = High,
           reversible = True,
           warnings = Some [''This is a destructive action'',
                            ''Cell contents will be permanently cleared''],
           estimated_impact = \<lparr>cells = int (length affectedCells), rows = None,
                                columns = None\<rparr>\<rparr>)"

definition simulateSortData :: "Parameters \<Rightarrow> js_error + DryRunResult" where
  "simulateSortData params =
     Inr \<lparr>cells_affected = expandRange (range params),
          rows_affected = None, columns_affected = None,
          risk_level = Medium,
          reversible = False,
          warnings = Some [''Sorting changes the order of rows'',
                           ''This action cannot be easily undone''],
          estimated_impact = \<lparr>cells = int (length (expandRange (range params))), rows = None,
                               columns = None\<rparr>\<rparr>"

definition simulateMergeCells :: "Parameters \<Rightarrow> js_error + DryRunResult" where
  "simulateMergeCells params =
     Inr \<lparr>cells_affected = expandRange (range params),
          rows_affected = None, columns_affected = None,
          risk_level = Low, reversible = True, warnings = None,
          estimated_impact = \<lparr>cells = int (length (expandRange (range params))), rows = None,
                               columns = None\<rparr>\<rparr>"

definition simulateAppendTransaction :: "Parameters \<Rightarrow> js_error + DryRunResult" where
  "simulateAppendTransaction params =
     Inr \<lparr>cells_affected = [], rows_affected = None, columns_affected = None,
          risk_level = Low, reversible = True, warnings = None,
          estimated_impact = \<lparr>cells = 5, rows = Some 1, columns = None\<rparr>\<rparr>"

definition simulateCreateTallySheet :: "Parameters \<Rightarrow> js_error + DryRunResult" where
  "simulateCreateTallySheet params =
     Inr \<lparr>cells_affected = [Some ''A1'', Some ''B1'', Some ''C1'', Some ''D1'', Some ''E1''],
          rows_affected = None, columns_affected = None,
          risk_level = Low, reversible = False, warnings = None,
          estimated_impact = \<lparr>cells = 5, rows = Some 1, columns = Some 5\<rparr>\<rparr>"

definition simulateFreezeRows :: "Parameters \<Rightarrow> js_error + DryRunResult" where
  "simulateFreezeRows params =
     Inr \<lparr>cells_affected = [], rows_affected = None, columns_affected = None,
          risk_level = Low, reversible = True, warnings = None,
          estimated_impact = \<lparr>cells = 0, rows = None, columns = None\<rparr>\<rparr>"

text \<open>\<open>chartType.toLowerCase()\<close> in the preview: a \<open>TypeError\<close> on \<open>undefined\<close>.\<close>

definition simulateCreateChart :: "Parameters \<Rightarrow> js_error + DryRunResult" where
  "simulateCreateChart params =
     (case chartType params of
        None \<Rightarrow> Inl TypeError
      | Some _ \<Rightarrow>
          Inr \<lparr>cells_affected = [], rows_affected = None, columns_affected = None,
               risk_level = Low, reversible = True, warnings = None,
               estimated_impact = \<lparr>cells = 0, rows = None, columns = None\<rparr>\<rparr>)"

definition simulateApplyFormula :: "Parameters \<Rightarrow> js_error + DryRunResult" where
  "simulateApplyFormula params =
     (let affectedCells = expandRange (range params) in
      Inr \<lparr>cells_affected = affectedCells, rows_affected = None, columns_affected = None,
           risk_level = Low, reversible = True, warnings = None,
           estimated_impact = \<lparr>cells = int (length affectedCells), rows = None,
                                columns = None\<rparr>\<rparr>)"

text \<open>
  \<open>simulate\<close>: the \<open>switch\<close> over the action name. Whatever is thrown inside is caught
  and rethrown as \<open>Error('Dry-run failed: ...')\<close>; \<open>Inl\<close> carries the cause. The third
  argument of the source, the spreadsheet id, is only written to the logger.
\<close>

definition simulate :: "string \<Rightarrow> Parameters \<Rightarrow> js_error + DryRunResult" where
  "simulate act params =
     (if act = ''create_spreadsheet'' then simulateCreateSpreadsheet params
      else if act = ''update_cell'' \<or> act = ''update_range'' then simulateUpdateCells params
      else if act = ''format_cells'' then simulateFormatCells params
      else if act = ''insert_row'' then simulateInsertRows params
      else if act = ''insert_column'' then simulateInsertColumns params
      else if act = ''delete_row'' then simulateDeleteRows params
      else if act = ''delete_column'' then simulateDeleteColumns params
      else if act = ''clear_range'' then simulateClearRange params
      else if act = ''sort_data'' then simulateSortData params
      else if act = ''merge_cells'' then simulateMergeCells params
      else if act = ''freeze_rows'' \<or> act = ''freeze_columns'' then simulateFreezeRows params
      else if act = ''create_chart'' then simulateCreateChart params
      else if act = ''apply_formula'' then simulateApplyFormula params
      else if act = ''append_transaction'' then simulateAppendTransaction params
      else if act = ''create_tally_sheet'' then simulateCreateTallySheet params
      else Inl (UnsupportedAction act))"

text \<open>The action kinds with a \<open>case\<close> label in \<open>simulate\<close>.\<close>

definition supported_actions :: "string list" where
  "supported_actions =
     [''create_spreadsheet'', ''update_cell'', ''update_range'', ''format_cells'',
      ''insert_row'', ''insert_column'', ''delete_row'', ''delete_column'', ''clear_range'',
      ''sort_data'', ''merge_cells'', ''freeze_rows'', ''freeze_columns'', ''create_chart'',
      ''apply_formula'', ''append_transaction'', ''create_tally_sheet'']"

section \<open>Spreadsheet backend (google-sheets.service.ts)\<close>

text \<open>
  The public methods of \<open>GoogleSheetsService\<close>, one constructor per method, with the
  arguments the callers pass. The first argument is the spreadsheet id; a \<open>sheetId\<close>
  argument is the numeric id of a tab. An argument read from a JSON object can be
  \<open>undefined\<close> (\<open>None\<close>).
\<close>

datatype sheets_call =
    CreateSpreadsheet "string option" "string list option"
  | GetSpreadsheet string
  | UpdateCells string "string option" "cell list list option" "string option"
  | GetCells string "string option" "string option"
  | FormatCells string "string option" "Format option" int
  | InsertRows string int "int option" "int option"
  | InsertColumns string int "int option" "int option"
  | DeleteRows string int "int option" "int option"
  | SortData string int "string option" "int option" bool
  | CreateChart string int "string option" "string option"
  | FreezeRows string int "int option"
  | MergeCells string "string option" "string option"

datatype Dimension = ROWS | COLUMNS

text \<open>Addition of two JavaScript numbers, either of which may be \<open>undefined\<close>.\<close>

definition js_plus :: "int option \<Rightarrow> int option \<Rightarrow> jsnumber" where
  "js_plus a b = (case (a, b) of (Some x, Some y) \<Rightarrow> Some (x + y) | _ \<Rightarrow> None)"

text \<open>
  The request each method sends to the Google Sheets API. For the dimension requests the
  range is \<open>{sheetId, dimension, startIndex, endIndex: startIndex + count}\<close>.
\<close>

datatype api_request =
    SpreadsheetsCreate
  | SpreadsheetsGet
  | ValuesUpdate
  | ValuesGet
  | RepeatCell
  | InsertDimension int Dimension "int option" jsnumber
  | DeleteDimension int Dimension "int option" jsnumber
  | SortRange
  | AddChart
  | UpdateSheetProperties
  | MergeCellsRequest

fun api_request_of :: "sheets_call \<Rightarrow> api_request" where
  "api_request_of (CreateSpreadsheet t ns) = SpreadsheetsCreate"
| "api_request_of (GetSpreadsheet sid) = SpreadsheetsGet"
| "api_request_of (UpdateCells sid r vs n) = ValuesUpdate"
| "api_request_of (GetCells sid r n) = ValuesGet"
| "api_request_of (FormatCells sid r f tab) = RepeatCell"
| "api_request_of (InsertRows sid tab start cnt) =
     InsertDimension tab ROWS start (js_plus start cnt)"
| "api_request_of (InsertColumns sid tab start cnt) =
     InsertDimension tab COLUMNS start (js_plus start cnt)"
| "api_request_of (DeleteRows sid tab start cnt) =
     DeleteDimension tab ROWS start (js_plus start cnt)"
| "api_request_of (SortData sid tab r col asc) = SortRange"
| "api_request_of (CreateChart sid tab ty r) = AddChart"
| "api_request_of (FreezeRows sid tab n) = UpdateSheetProperties"
| "api_request_of (MergeCells sid r ty) = MergeCellsRequest"

fun is_column_deletion :: "api_request \<Rightarrow> bool" where
  "is_column_deletion (DeleteDimension tab COLUMNS start end) = True"
| "is_column_deletion _ = False"

text \<open>
  What the services cannot decide themselves is gathered in an environment: whether a
  call of a backend method returns (\<open>True\<close>) or throws, whether
  \<open>getGoogleSheetsService\<close> finds a usable token for a user, the id the backend gives
  a created spreadsheet, the keys the database generates for new rows, and the time zone
  of the host. Reads and writes of the database itself are taken to succeed.
\<close>

record Env =
  call_ok :: "sheets_call \<Rightarrow> bool"
  has_token :: "string \<Rightarrow> bool"
  created_spreadsheetId :: string
  new_audit_id :: string
  new_rollback_id :: string
  zone :: TimeZone

text \<open>A call of a backend method: recorded, then it returns or throws.\<close>

definition invoke :: "Env \<Rightarrow> sheets_call \<Rightarrow> sheets_call list \<Rightarrow> bool \<times> sheets_call list" where
  "invoke env c calls = (call_ok env c, calls @ [c])"

section \<open>Rollback service (rollback.service.ts)\<close>

record CurrentData =
  cur_values :: "cell list list option"
  cur_format :: "Format option"
  rowData :: "cell list list option"
  columnData :: "cell list list option"

text \<open>
  The undo payload is a JSON object: the keys of the parameters (the \<open>default\<close> branch
  of \<open>generateUndoData\<close> copies them all) and the keys that hold pre-mutation data.
\<close>

record UndoData = Parameters +
  previousValues :: "cell list list option"
  previousFormat :: "Format option"
  deletedData :: "cell list list option"
  clearedValues :: "cell list list option"

definition no_undoData :: UndoData where
  "no_undoData =
     \<lparr>title = None, sheetNames = None, range = None, values' = None, sheetName = None,
      format = None, sheetId = None, startIndex = None, count = None, columnIndex = None,
      ascending = None, mergeType = None, rowCount = None, columnCount = None,
      chartType = None, dataRange = None, formula = None,
      previousValues = None, previousFormat = None, deletedData = None,
      clearedValues = None\<rparr>"

definition empty_format :: Format where
  "empty_format =
     \<lparr>bold = None, italic = None, underline = None, fontSize = None, numberFormat = None\<rparr>"

text \<open>\<open>x || d\<close> on a number: \<open>undefined\<close> and \<open>0\<close> are falsy.\<close>

definition num_or :: "int option \<Rightarrow> int \<Rightarrow> int" where
  "num_or x d = (case x of None \<Rightarrow> d | Some n \<Rightarrow> if n = 0 then d else n)"

text \<open>\<open>s || d\<close> on a string: \<open>undefined\<close> and the empty string are falsy.\<close>

definition str_or :: "string option \<Rightarrow> string \<Rightarrow> string" where
  "str_or x d = (case x of None \<Rightarrow> d | Some v \<Rightarrow> if v = [] then d else v)"

text \<open>\<open>currentData?.field || d\<close>: an array or object, even an empty one, is truthy.\<close>

definition cur_or ::
  "CurrentData option \<Rightarrow> (CurrentData \<Rightarrow> 'a option) \<Rightarrow> 'a \<Rightarrow> 'a" where
  "cur_or currentData field d =
     (case currentData of
        None \<Rightarrow> d
      | Some cd \<Rightarrow> (case field cd of None \<Rightarrow> d | Some v \<Rightarrow> v))"

definition generateUndoData ::
  "string \<Rightarrow> Parameters \<Rightarrow> CurrentData option \<Rightarrow> UndoData" where
  "generateUndoData act params currentData =
     (if act = ''update_cell'' \<or> act = ''update_range'' then
        no_undoData\<lparr>range := range params,
                    previousValues := Some (cur_or currentData cur_values [[CellString []]]),
                    sheetName := sheetName params\<rparr>
      else if act = ''format_cells'' then
        no_undoData\<lparr>range := range params,
                    previousFormat := Some (cur_or currentData cur_format empty_format),
                    sheetName := sheetName params\<rparr>
      else if act = ''insert_row'' then
        no_undoData\<lparr>startIndex := startIndex params,
                    count := Some (num_or (count params) 1),
                    sheetId := sheetId params\<rparr>
      else if act = ''insert_column'' then
        no_undoData\<lparr>startIndex := startIndex params,
                    count := Some (num_or (count params) 1),
                    sheetId := sheetId params\<rparr>
      else if act = ''delete_row'' then
        no_undoData\<lparr>startIndex := startIndex params,
                    count := Some (num_or (count params) 1),
                    deletedData := Some (cur_or currentData rowData []),
                    sheetId := sheetId params\<rparr>
      else if act = ''delete_column'' then
        no_undoData\<lparr>startIndex := startIndex params,
                    count := Some (num_or (count params) 1),
                    deletedData := Some (cur_or currentData columnData []),
                    sheetId := sheetId params\<rparr>
      else if act = ''clear_range'' then
        no_undoData\<lparr>range := range params,
                    clearedValues := Some (cur_or currentData cur_values []),
                    sheetName := sheetName params\<rparr>
      else if act = ''merge_cells'' then
        no_undoData\<lparr>range := range params, sheetId := sheetId params\<rparr>
      else
        Parameters.extend params
          (UndoData.fields None None None None))"

text \<open>
  \<open>getUndoAction\<close>: the lookup in \<open>undoMap\<close>, else \<open>'undo_' + action\<close>. Action names
  are those of the intent schema.
\<close>

definition undoMap :: "(string \<times> string) list" where
  "undoMap =
     [(''update_cell'', ''restore_cell''),
      (''update_range'', ''restore_range''),
      (''format_cells'', ''restore_format''),
      (''insert_row'', ''delete_inserted_row''),
      (''insert_column'', ''delete_inserted_column''),
      (''delete_row'', ''restore_deleted_row''),
      (''delete_column'', ''restore_deleted_column''),
      (''clear_range'', ''restore_cleared_range''),
      (''merge_cells'', ''unmerge_cells'')]"

definition getUndoAction :: "string \<Rightarrow> string" where
  "getUndoAction act =
     (case map_of undoMap act of Some u \<Rightarrow> u | None \<Rightarrow> ''undo_'' @ act)"

record RollbackAction =
  rb_id :: string
  userId :: string
  actionId :: string
  rb_sheetId :: string
  undoAction :: string
  undoData :: UndoData
  executed :: bool
  expiresAt :: int
  createdAt :: int

type_synonym rollback_table = "RollbackAction list"

definition ROLLBACK_WINDOW_HOURS :: int where
  "ROLLBACK_WINDOW_HOURS = 24"

text \<open>
  \<open>createSnapshot\<close>: the new row (with \<open>executed = false\<close>, the column default) and the
  table with the row appended. The expiry is \<open>now\<close> with the hours of its local time
  moved on by 24 (\<open>setHours(getHours() + 24)\<close>); \<open>now\<close> is the reading of the clock, for
  which the result is within the range of a date.
\<close>

definition createSnapshot ::
  "Env \<Rightarrow> int \<Rightarrow> string \<Rightarrow> string \<Rightarrow> string \<Rightarrow> string \<Rightarrow> Parameters
     \<Rightarrow> CurrentData option \<Rightarrow> rollback_table \<Rightarrow> RollbackAction \<times> rollback_table" where
  "createSnapshot env now uid aid sid act params currentData tbl =
     (let snapshot =
            \<lparr>rb_id = new_rollback_id env, userId = uid, actionId = aid, rb_sheetId = sid,
             undoAction = getUndoAction act,
             undoData = generateUndoData act params currentData,
             executed = False,
             expiresAt = hours_later (zone env) now ROLLBACK_WINDOW_HOURS,
             createdAt = now\<rparr>
      in (snapshot, tbl @ [snapshot]))"

datatype undo_error =
    NotFoundOrAlreadyExecuted
  | UndoWindowExpired
  | SheetsServiceUnavailable
  | SheetsCallFailed
  | UnsupportedUndoAction string

definition undo_call ::
  "Env \<Rightarrow> sheets_call \<Rightarrow> sheets_call list \<Rightarrow> (undo_error + unit) \<times> sheets_call list" where
  "undo_call env c calls =
     (case invoke env c calls of
        (True, calls') \<Rightarrow> (Inr (), calls')
      | (False, calls') \<Rightarrow> (Inl SheetsCallFailed, calls'))"

text \<open>
  \<open>performUndo\<close>: the \<open>switch\<close> over the undo action; the calls made are appended to the
  call list. The two \<open>not yet implemented\<close> branches only write a warning to the logger.
\<close>

definition performUndo ::
  "Env \<Rightarrow> RollbackAction \<Rightarrow> sheets_call list \<Rightarrow> (undo_error + unit) \<times> sheets_call list" where
  "performUndo env rollback calls =
     (let ua = undoAction rollback; ud = undoData rollback; sid = rb_sheetId rollback in
      if ua = ''restore_cell'' \<or> ua = ''restore_range'' then
        undo_call env (UpdateCells sid (range ud) (previousValues ud) (sheetName ud)) calls
      else if ua = ''restore_format'' then
        undo_call env
          (FormatCells sid (range ud) (previousFormat ud) (num_or (sheetId ud) 0)) calls
      else if ua = ''delete_inserted_row'' then
        undo_call env
          (DeleteRows sid (num_or (sheetId ud) 0) (startIndex ud) (count ud)) calls
      else if ua = ''delete_inserted_column'' then
        undo_call env
          (DeleteRows sid (num_or (sheetId ud) 0) (startIndex ud) (count ud)) calls
      else if ua = ''restore_deleted_row'' then
        undo_call env
          (InsertRows sid (num_or (sheetId ud) 0) (startIndex ud) (count ud)) calls
      else if ua = ''restore_cleared_range'' then
        (case clearedValues ud of
           None \<Rightarrow> (Inr (), calls)
         | Some vs \<Rightarrow>
             if length vs > 0
             then undo_call env (UpdateCells sid (range ud) (Some vs) (sheetName ud)) calls
             else (Inr (), calls))
      else if ua = ''unmerge_cells'' then (Inr (), calls)
      else (Inl (UnsupportedUndoAction ua), calls))"

text \<open>
  The state the request handlers work on: the three tables and the list of the calls made
  to the spreadsheet backend.
\<close>

record AuditLog =
  audit_id :: string
  audit_userId :: string
  audit_action :: string
  audit_sheetId :: "string option"
  audit_success :: bool

record World =
  conversations :: conversation_table
  rollbackActions :: rollback_table
  auditLogs :: "AuditLog list"
  sheets_log :: "sheets_call list"

text \<open>
  \<open>findFirst\<close> with \<open>where: {id, userId, executed: false}\<close>, and \<open>update\<close> with
  \<open>where: {id}\<close>, \<open>data: {executed: true}\<close>.
\<close>

definition findFirst_rollback ::
  "rollback_table \<Rightarrow> string \<Rightarrow> string \<Rightarrow> RollbackAction option" where
  "findFirst_rollback tbl rid uid =
     find (\<lambda>r. rb_id r = rid \<and> userId r = uid \<and> executed r = False) tbl"

definition mark_executed :: "rollback_table \<Rightarrow> string \<Rightarrow> rollback_table" where
  "mark_executed tbl rid = map (\<lambda>r. if rb_id r = rid then r\<lparr>executed := True\<rparr> else r) tbl"

text \<open>
  \<open>executeUndo\<close> at time \<open>now\<close>. Whatever is thrown is rethrown as
  \<open>Error('Undo failed: ...')\<close>; \<open>Inl\<close> carries the cause. On success the message names the
  undo action.
\<close>

definition executeUndo ::
  "Env \<Rightarrow> int \<Rightarrow> string \<Rightarrow> string \<Rightarrow> World \<Rightarrow> (undo_error + string) \<times> World" where
  "executeUndo env now uid rollbackId w =
     (case findFirst_rollback (rollbackActions w) rollbackId uid of
        None \<Rightarrow> (Inl NotFoundOrAlreadyExecuted, w)
      | Some rollback \<Rightarrow>
          if now > expiresAt rollback then (Inl UndoWindowExpired, w)
          else if \<not> has_token env uid then (Inl SheetsServiceUnavailable, w)
          else
            (case performUndo env rollback (sheets_log w) of
               (Inl e, calls') \<Rightarrow> (Inl e, w\<lparr>sheets_log := calls'\<rparr>)
             | (Inr _, calls') \<Rightarrow>
                 (Inr (''Successfully undid action: '' @ undoAction rollback),
                  w\<lparr>sheets_log := calls',
                    rollbackActions := mark_executed (rollbackActions w) rollbackId\<rparr>)))"

section \<open>Conversation service (conversation.service.ts)\<close>

text \<open>
  \<open>transitionState\<close>, \<open>getConversationState\<close> and \<open>resetState\<close> of the conversation
  service pass their arguments on to \<open>transitionState\<close>, \<open>getCurrentState\<close> and
  \<open>resetToIdle\<close> of the state machine. \<open>handleError\<close> first reads the current state
  (and throws when there is no such conversation), then calls the state machine's
  \<open>handleError\<close>.
\<close>

text \<open>
  \<open>addMessage\<close> at time \<open>now\<close>: the message row is created (the message table is not part
  of the model), then \<open>updatedAt\<close> of the conversation is set to the current time. The
  state is not touched. Without such a conversation the update is rejected.
\<close>

definition addMessage ::
  "int \<Rightarrow> conversation_table \<Rightarrow> string \<Rightarrow> (sm_error + unit) \<times> conversation_table" where
  "addMessage now tbl conversationId =
     (if findUnique tbl conversationId = None then (Inl FailedToAddMessage, tbl)
      else (Inr (),
            map (\<lambda>c. if conv_id c = conversationId then c\<lparr>updatedAt := now\<rparr> else c) tbl))"


definition handleError :: "conversation_table \<Rightarrow> string \<Rightarrow> (sm_error + unit) \<times> conversation_table" where
  "handleError tbl conversationId =
     (case getCurrentState tbl conversationId of
        Inl e \<Rightarrow> (Inl e, tbl)
      | Inr cur \<Rightarrow> (Inr (), sm_handleError tbl conversationId))"

section \<open>Intent validation (intent-parser.service.ts)\<close>

text \<open>Truthiness of an optional string: \<open>undefined\<close> and the empty string are falsy.\<close>

definition truthy :: "string option \<Rightarrow> bool" where
  "truthy x \<longleftrightarrow> x \<noteq> None \<and> x \<noteq> Some []"

record Validation =
  valid :: bool
  validation_message :: "string option"

definition validateIntent :: "SheetActionIntent \<Rightarrow> Validation" where
  "validateIntent i =
     (if confidence i < 6 / 10 then
        \<lparr>valid = False,
         validation_message =
           Some (str_or (clarificationNeeded i)
                   (''I'' @ [CHR 0x27] @
                    ''m not confident I understood correctly. Could you rephrase that?''))\<rparr>
      else if truthy (clarificationNeeded i) then
        \<lparr>valid = False, validation_message = clarificationNeeded i\<rparr>
      else \<lparr>valid = True, validation_message = None\<rparr>)"

section \<open>Dry-run route (app/api/sheets/dry-run/route.ts)\<close>

text \<open>
  The handler for an authenticated caller within the rate limit. The body carries
  \<open>action\<close>, \<open>parameters\<close>, \<open>sheetId\<close> and \<open>conversationId\<close>; the client builds it from
  the classified intent (\<open>dry_run_body\<close>, from the dashboard hook), which passes the
  action and the parameters only.
\<close>

record DryRunBody =
  body_action :: "string option"
  body_parameters :: "Parameters option"
  dr_sheetId :: "string option"
  dr_conversationId :: "string option"

definition dry_run_body :: "SheetActionIntent \<Rightarrow> string option \<Rightarrow> string option \<Rightarrow> DryRunBody" where
  "dry_run_body i sid cid =
     \<lparr>body_action = Some (action i), body_parameters = Some (parameters i),
      dr_sheetId = sid, dr_conversationId = cid\<rparr>"

datatype DryRunResponse =
    DryRunOk DryRunResult bool
  | DryRunBadRequest
  | DryRunServerError

text \<open>The next state chosen from the dry-run result.\<close>

definition nextState :: "DryRunResult \<Rightarrow> ConversationState" where
  "nextState result =
     (if risk_level result = High \<or> reversible result = False
      then CONFIRMATION_REQUIRED else READY_TO_EXECUTE)"

definition dry_run_POST :: "DryRunBody \<Rightarrow> conversation_table \<Rightarrow> DryRunResponse \<times> conversation_table" where
  "dry_run_POST body tbl =
     (case (body_action body, body_parameters body) of
        (Some act, Some params) \<Rightarrow>
          if act = [] then (DryRunBadRequest, tbl)
          else
            (case simulate act params of
               Inl e \<Rightarrow> (DryRunServerError, tbl)
             | Inr result \<Rightarrow>
                 (let response = DryRunOk result (risk_level result = High \<or> \<not> reversible result) in
                  if truthy (dr_conversationId body) then
                    (case getCurrentState tbl (the (dr_conversationId body)) of
                       Inl e \<Rightarrow> (DryRunServerError, tbl)
                     | Inr cur \<Rightarrow>
                         (case transitionState tbl (the (dr_conversationId body)) (nextState result) of
                            (Inl e, tbl') \<Rightarrow> (DryRunServerError, tbl')
                          | (Inr r, tbl') \<Rightarrow> (response, tbl')))
                  else (response, tbl)))
      | _ \<Rightarrow> (DryRunBadRequest, tbl))"

text \<open>
  The dispatch after the dry-run as the specification words it, for comparison with
  \<open>nextState\<close>: clarification below a confidence of 0.60, else confirmation when the
  classifier asks for it or the simulator reports high risk or a result that is not
  reversible, else ready to execute.
\<close>

definition spec_dispatch :: "SheetActionIntent \<Rightarrow> DryRunResult \<Rightarrow> ConversationState" where
  "spec_dispatch i result =
     (if confidence i < 6 / 10 then CLARIFICATION_REQUIRED
      else if confirmationRequired i \<or> risk_level result = High \<or> \<not> reversible result
      then CONFIRMATION_REQUIRED
      else READY_TO_EXECUTE)"

section \<open>Execute route (app/api/sheets/execute/route.ts)\<close>

text \<open>The action names that \<open>sheetActionIntentSchema\<close> accepts.\<close>

definition schema_actions :: "string list" where
  "schema_actions =
     [''create_spreadsheet'', ''open_spreadsheet'', ''update_cell'', ''update_range'',
      ''insert_row'', ''insert_column'', ''delete_row'', ''delete_column'', ''format_cells'',
      ''apply_formula'', ''sort_data'', ''filter_data'', ''create_chart'', ''rename_sheet'',
      ''merge_cells'', ''freeze_rows'', ''freeze_columns'', ''add_data_validation'',
      ''clear_range'', ''append_transaction'', ''create_tally_sheet'']"

record ExecuteBody =
  intent :: SheetActionIntent
  body_sheetId :: "string option"
  confirmed :: bool
  body_conversationId :: "string option"

record ExecResult =
  result_sheetId :: "string option"
  result_sheetName :: "string option"

datatype exec_error =
    ValidationError
  | ServiceUnavailable
  | TransitionFailed
  | SheetIdRequired
  | BackendCallFailed
  | NotAFunction
  | UnsupportedExecAction string

definition exec_call ::
  "Env \<Rightarrow> sheets_call \<Rightarrow> ExecResult \<Rightarrow> sheets_call list
     \<Rightarrow> (exec_error + ExecResult) \<times> sheets_call list" where
  "exec_call env c res calls =
     (case invoke env c calls of
        (True, calls') \<Rightarrow> (Inr res, calls')
      | (False, calls') \<Rightarrow> (Inl BackendCallFailed, calls'))"

text \<open>
  \<open>executeAction\<close>. The service has no \<open>clearRange\<close> and no \<open>appendValues\<close> method, so
  the calls in the branches \<open>clear_range\<close> and \<open>append_transaction\<close> throw a
  \<open>TypeError\<close> (for \<open>append_transaction\<close>, unless \<open>buildTransactionRow\<close> has thrown
  before; the model does not tell the two exceptions apart). The result keeps the
  fields \<open>sheetId\<close> and \<open>sheetName\<close>, which the handler reads; no branch sets
  \<open>previousData\<close>.
\<close>

definition executeAction ::
  "Env \<Rightarrow> SheetActionIntent \<Rightarrow> string option \<Rightarrow> sheets_call list
     \<Rightarrow> (exec_error + ExecResult) \<times> sheets_call list" where
  "executeAction env i sid calls =
     (let act = action i; p = parameters i; s = the sid;
          same_sheet = \<lparr>result_sheetId = sid, result_sheetName = None\<rparr> in
      if act = ''create_spreadsheet'' then
        exec_call env (CreateSpreadsheet (title p) (sheetNames p))
          \<lparr>result_sheetId = Some (created_spreadsheetId env), result_sheetName = title p\<rparr> calls
      else if act = ''update_cell'' \<or> act = ''update_range'' then
        (if \<not> truthy sid then (Inl SheetIdRequired, calls)
         else exec_call env (UpdateCells s (range p) (values' p) (sheetName p))
                \<lparr>result_sheetId = sid, result_sheetName = sheetName p\<rparr> calls)
      else if act = ''format_cells'' then
        (if \<not> truthy sid then (Inl SheetIdRequired, calls)
         else exec_call env (FormatCells s (range p) (format p) (num_or (sheetId p) 0))
                same_sheet calls)
      else if act = ''insert_row'' then
        (if \<not> truthy sid then (Inl SheetIdRequired, calls)
         else exec_call env
                (InsertRows s (num_or (sheetId p) 0) (startIndex p) (Some (num_or (count p) 1)))
                same_sheet calls)
      else if act = ''insert_column'' then
        (if \<not> truthy sid then (Inl SheetIdRequired, calls)
         else exec_call env
                (InsertColumns s (num_or (sheetId p) 0) (startIndex p) (Some (num_or (count p) 1)))
                same_sheet calls)
      else if act = ''delete_row'' then
        (if \<not> truthy sid then (Inl SheetIdRequired, calls)
         else exec_call env
                (DeleteRows s (num_or (sheetId p) 0) (startIndex p) (Some (num_or (count p) 1)))
                same_sheet calls)
      else if act = ''freeze_rows'' then
        (if \<not> truthy sid then (Inl SheetIdRequired, calls)
         else exec_call env (FreezeRows s (num_or (sheetId p) 0) (rowCount p)) same_sheet calls)
      else if act = ''merge_cells'' then
        (if \<not> truthy sid then (Inl SheetIdRequired, calls)
         else exec_call env (MergeCells s (range p) (mergeType p)) same_sheet calls)
      else if act = ''sort_data'' then
        (if \<not> truthy sid then (Inl SheetIdRequired, calls)
         else exec_call env
                (SortData s (num_or (sheetId p) 0) (range p) (columnIndex p)
                   (ascending p \<noteq> Some False))
                same_sheet calls)
      else if act = ''create_chart'' then
        (if \<not> truthy sid then (Inl SheetIdRequired, calls)
         else exec_call env (CreateChart s (num_or (sheetId p) 0) (chartType p) (dataRange p))
                same_sheet calls)
      else if act = ''apply_formula'' then
        (if \<not> truthy sid then (Inl SheetIdRequired, calls)
         else exec_call env
                (UpdateCells s (range p)
                   (Some [[case formula p of None \<Rightarrow> CellNull | Some f \<Rightarrow> CellString f]])
                   (sheetName p))
                same_sheet calls)
      else if act = ''clear_range'' then
        (if \<not> truthy sid then (Inl SheetIdRequired, calls)
         else (Inl NotAFunction, calls))
      else if act = ''append_transaction'' then
        (if \<not> truthy sid then (Inl SheetIdRequired, calls)
         else (Inl NotAFunction, calls))
      else if act = ''create_tally_sheet'' then
        (case invoke env
                (CreateSpreadsheet (Some (str_or (title p) ''Business Tally Sheet''))
                   (Some [str_or (sheetName p) ''Tally'']))
                calls of
           (False, calls') \<Rightarrow> (Inl BackendCallFailed, calls')
         | (True, calls') \<Rightarrow>
             exec_call env
               (UpdateCells (created_spreadsheetId env) (Some ''A1:E1'')
                  (Some [[CellString ''Date'', CellString ''Type'', CellString ''Category'',
                          CellString ''Description'', CellString ''Amount'']])
                  (Some (str_or (sheetName p) ''Tally'')))
               \<lparr>result_sheetId = Some (created_spreadsheetId env),
                result_sheetName = Some (str_or (title p) ''Business Tally Sheet'')\<rparr>
               calls')
      else (Inl (UnsupportedExecAction act), calls))"

datatype ExecuteResponse =
    RequiresConfirmation
  | ExecSucceeded ExecResult
  | ExecFailed exec_error

text \<open>
  The \<open>catch\<close> block of the handler: a failure entry in the audit log, then
  \<open>handleError\<close> for the conversation, if the body names one. When there is no such
  conversation, \<open>handleError\<close> throws inside the \<open>catch\<close> block; the tables are then
  as the audit entry left them, and the caller still gets an error response.
\<close>

definition on_failure :: "Env \<Rightarrow> string \<Rightarrow> ExecuteBody \<Rightarrow> World \<Rightarrow> World" where
  "on_failure env uid body w =
     (let w1 = w\<lparr>auditLogs := auditLogs w @
                  [\<lparr>audit_id = new_audit_id env, audit_userId = uid,
                    audit_action = str_or (Some (action (intent body))) ''unknown'',
                    audit_sheetId = body_sheetId body, audit_success = False\<rparr>]\<rparr>
      in if truthy (body_conversationId body)
         then w1\<lparr>conversations := snd (handleError (conversations w1) (the (body_conversationId body)))\<rparr>
         else w1)"

text \<open>
  The transition requested by the handler when the body names a conversation. Its result
  is not inspected; only an exception (no such conversation) leaves the \<open>try\<close> block.
\<close>

definition request_transition ::
  "ExecuteBody \<Rightarrow> ConversationState \<Rightarrow> conversation_table \<Rightarrow> bool \<times> conversation_table" where
  "request_transition body s tbl =
     (if truthy (body_conversationId body)
      then (case transitionState tbl (the (body_conversationId body)) s of
              (Inl e, tbl') \<Rightarrow> (False, tbl')
            | (Inr r, tbl') \<Rightarrow> (True, tbl'))
      else (True, tbl))"

text \<open>
  \<open>POST /api/sheets/execute\<close> for the authenticated user \<open>uid\<close> within the rate limit, at
  time \<open>now\<close>. The schema check stands for \<open>validateRequest\<close>.
\<close>

definition execute_POST ::
  "Env \<Rightarrow> int \<Rightarrow> string \<Rightarrow> ExecuteBody \<Rightarrow> World \<Rightarrow> ExecuteResponse \<times> World" where
  "execute_POST env now uid body w =
     (let i = intent body in
      if action i \<notin> set schema_actions \<or> confidence i < 0 \<or> confidence i > 1 then
        (ExecFailed ValidationError, on_failure env uid body w)
      else if confirmationRequired i \<and> \<not> confirmed body then (RequiresConfirmation, w)
      else if \<not> has_token env uid then
        (ExecFailed ServiceUnavailable, on_failure env uid body w)
      else
        (case request_transition body EXECUTING (conversations w) of
           (False, tbl1) \<Rightarrow>
             (ExecFailed TransitionFailed, on_failure env uid body (w\<lparr>conversations := tbl1\<rparr>))
         | (True, tbl1) \<Rightarrow>
             (case executeAction env i (body_sheetId body) (sheets_log w) of
                (Inl e, calls') \<Rightarrow>
                  (ExecFailed e,
                   on_failure env uid body (w\<lparr>conversations := tbl1, sheets_log := calls'\<rparr>))
              | (Inr res, calls') \<Rightarrow>
                  (let w2 = w\<lparr>conversations := tbl1, sheets_log := calls',
                              auditLogs := auditLogs w @
                                [\<lparr>audit_id = new_audit_id env, audit_userId = uid,
                                  audit_action = action i,
                                  audit_sheetId = result_sheetId res,
                                  audit_success = True\<rparr>]\<rparr>;
                       w3 = (if truthy (body_sheetId body) \<and> new_audit_id env \<noteq> []
                             then w2\<lparr>rollbackActions :=
                                      snd (createSnapshot env now uid (new_audit_id env)
                                             (the (body_sheetId body)) (action i) (parameters i)
                                             None (rollbackActions w2))\<rparr>
                             else w2)
                   in case request_transition body COMPLETED (conversations w3) of
                        (False, tbl4) \<Rightarrow>
                          (ExecFailed TransitionFailed,
                           on_failure env uid body (w3\<lparr>conversations := tbl4\<rparr>))
                      | (True, tbl4) \<Rightarrow> (ExecSucceeded res, w3\<lparr>conversations := tbl4\<rparr>)))))"

section \<open>Concrete inputs\<close>

text \<open>
  An environment in which every backend call returns and every user has a token, an empty
  state, and the requests and rows used in the examples below.
\<close>

definition utc_zone :: TimeZone where
  "utc_zone = \<lparr>LocalTime = (\<lambda>t. t), UTC = (\<lambda>t. t)\<rparr>"

text \<open>
  A zone with the two offset changes of New York in 2026: five hours behind UTC, and four
  hours behind from 2026-03-08 07:00 UTC until 2026-11-01 06:00 UTC. A local time that
  is skipped or repeated is read with the offset before the change.
\<close>

definition new_york_2026 :: TimeZone where
  "new_york_2026 =
     \<lparr>LocalTime = (\<lambda>t. if 1772953200000 \<le> t \<and> t < 1793512800000
                        then t - 4 * 3600000 else t - 5 * 3600000),
      UTC = (\<lambda>t. if 1772938800000 \<le> t \<and> t < 1793498400000
                  then t + 4 * 3600000 else t + 5 * 3600000)\<rparr>"

definition example_env :: Env where
  "example_env =
     \<lparr>call_ok = (\<lambda>c. True), has_token = (\<lambda>u. True), created_spreadsheetId = ''new-sheet'',
      new_audit_id = ''audit-1'', new_rollback_id = ''rollback-1'', zone = utc_zone\<rparr>"

definition empty_world :: World where
  "empty_world = \<lparr>conversations = [], rollbackActions = [], auditLogs = [], sheets_log = []\<rparr>"

definition delete_row_intent :: "bool \<Rightarrow> SheetActionIntent" where
  "delete_row_intent hint =
     \<lparr>action = ''delete_row'', parameters = no_parameters\<lparr>startIndex := Some 4\<rparr>,
      confirmationRequired = hint, clarificationNeeded = None, confidence = 1\<rparr>"

definition delete_row_body :: "bool \<Rightarrow> ExecuteBody" where
  "delete_row_body hint =
     \<lparr>intent = delete_row_intent hint, body_sheetId = Some ''sheet-1'', confirmed = False,
      body_conversationId = None\<rparr>"

definition delete_row_report :: DryRunResult where
  "delete_row_report =
     \<lparr>cells_affected = [], rows_affected = Some [Some 5], columns_affected = None,
      risk_level = High, reversible = True,
      warnings = Some [''This is a destructive action'',
                       ''All data in these rows will be removed''],
      estimated_impact = \<lparr>cells = 0, rows = Some 1, columns = None\<rparr>\<rparr>"

definition update_cell_intent :: "bool \<Rightarrow> real \<Rightarrow> SheetActionIntent" where
  "update_cell_intent hint conf =
     \<lparr>action = ''update_cell'',
      parameters = no_parameters\<lparr>range := Some ''B2'', values' := Some [[CellNumber 45000]]\<rparr>,
      confirmationRequired = hint, clarificationNeeded = None, confidence = conf\<rparr>"

definition one_cell_report :: DryRunResult where
  "one_cell_report =
     \<lparr>cells_affected = [Some ''B2''], rows_affected = None, columns_affected = None,
      risk_level = Low, reversible = True, warnings = None,
      estimated_impact = \<lparr>cells = 1, rows = None, columns = None\<rparr>\<rparr>"

definition insert_column_body :: ExecuteBody where
  "insert_column_body =
     \<lparr>intent = \<lparr>action = ''insert_column'',
                parameters = no_parameters\<lparr>startIndex := Some 2, count := Some 3\<rparr>,
                confirmationRequired = False, clarificationNeeded = None, confidence = 1\<rparr>,
      body_sheetId = Some ''sheet-1'', confirmed = False, body_conversationId = None\<rparr>"


definition classified_conversation :: Conversation where
  "classified_conversation = \<lparr>conv_id = ''conv-1'', state = INTENT_CLASSIFIED, updatedAt = 0\<rparr>"

definition executing_conversation :: Conversation where
  "executing_conversation = \<lparr>conv_id = ''conv-1'', state = EXECUTING, updatedAt = 0\<rparr>"

definition completed_conversation :: Conversation where
  "completed_conversation = \<lparr>conv_id = ''conv-3'', state = COMPLETED, updatedAt = 0\<rparr>"

definition idle_conversation :: Conversation where
  "idle_conversation = \<lparr>conv_id = ''conv-2'', state = IDLE, updatedAt = 0\<rparr>"

definition inserted_row_rollback :: RollbackAction where
  "inserted_row_rollback =
     \<lparr>rb_id = ''rollback-1'', userId = ''user-1'', actionId = ''audit-1'',
      rb_sheetId = ''sheet-1'', undoAction = ''delete_inserted_row'',
      undoData = no_undoData\<lparr>startIndex := Some 2, count := Some 1\<rparr>,
      executed = False, expiresAt = 86400000, createdAt = 0\<rparr>"

definition undo_world :: World where
  "undo_world = empty_world\<lparr>rollbackActions := [inserted_row_rollback]\<rparr>"

section \<open>Properties of the state machine\<close>

lemma stuck_iff:
  "stuck cutoffTime c \<longleftrightarrow> state c \<noteq> IDLE \<and> state c \<noteq> COMPLETED \<and> updatedAt c < cutoffTime"
  by (auto simp: stuck_def)


lemma findUnique_conv_id: "findUnique tbl cid = Some c \<Longrightarrow> conv_id c = cid"
  by (auto simp: findUnique_def find_Some_iff)

lemma findUnique_map:
  "findUnique (map (\<lambda>c. if conv_id c = cid then c\<lparr>state := s\<rparr> else c) tbl) cid' =
     map_option (\<lambda>c. if conv_id c = cid then c\<lparr>state := s\<rparr> else c) (findUnique tbl cid')"
  by (induction tbl) (auto simp: findUnique_def)


text \<open>
  Claim C4. When the requested state is not in the table row of the conversation's current
  state, \<open>transitionState\<close> returns \<open>success = false\<close> together with the current state
  and the invalid-transition message, and the table is exactly as it was.
\<close>

theorem transitionState_rejects_invalid:
  assumes "findUnique tbl conversationId = Some c"
    and "newState \<notin> set (VALID_TRANSITIONS (state c))"
  shows "transitionState tbl conversationId newState =
           (Inr \<lparr>success = False, currentState = state c,
                 message = Some (''Invalid state transition from '' @ state_name (state c)
                                   @ '' to '' @ state_name newState)\<rparr>, tbl)"
  using assms by (simp add: transitionState_def isValidTransition_def Let_def)

theorem transitionState_rejects_invalid_witness:
  "findUnique [idle_conversation] ''conv-2'' = Some idle_conversation
   \<and> EXECUTING \<notin> set (VALID_TRANSITIONS (state idle_conversation))
   \<and> transitionState [idle_conversation] ''conv-2'' EXECUTING =
       (Inr \<lparr>success = False, currentState = IDLE,
             message = Some ''Invalid state transition from IDLE to EXECUTING''\<rparr>,
        [idle_conversation])"
proof -
  have f: "findUnique [idle_conversation] ''conv-2'' = Some idle_conversation"
    by (simp add: findUnique_def idle_conversation_def)
  have s: "state idle_conversation = IDLE" by (simp add: idle_conversation_def)
  have m: "EXECUTING \<notin> set (VALID_TRANSITIONS (state idle_conversation))" by (simp add: s)
  from transitionState_rejects_invalid [OF f m] f m s show ?thesis by simp
qed




lemma minutes_earlier_utc:
  "\<bar>t - n * 60000\<bar> \<le> 8640000000000000 \<Longrightarrow> minutes_earlier utc_zone t n = Some (t - n * 60000)"
  by (simp add: minutes_earlier_def utc_zone_def TimeClip_def)

text \<open>The sweep in terms of the cutoff it computes, for every time zone.\<close>

lemma cleanup_by_cutoff:
  "minutes_earlier tz now maxAgeMinutes = Some cutoff \<Longrightarrow>
     cleanupStuckConversations tz now maxAgeMinutes tbl =
       (length (filter (\<lambda>c. state c \<noteq> IDLE \<and> state c \<noteq> COMPLETED \<and> updatedAt c < cutoff) tbl),
        map (\<lambda>c. if state c \<noteq> IDLE \<and> state c \<noteq> COMPLETED \<and> updatedAt c < cutoff
                 then c\<lparr>state := ERROR\<rparr> else c) tbl)"
proof -
  have "stuck cutoff = (\<lambda>c. state c \<noteq> IDLE \<and> state c \<noteq> COMPLETED \<and> updatedAt c < cutoff)"
    by (rule ext) (rule stuck_iff)
  then show ?thesis if "minutes_earlier tz now maxAgeMinutes = Some cutoff"
    using that by (simp add: cleanupStuckConversations_def)
qed

lemma cleanup_invalid_cutoff:
  "minutes_earlier tz now maxAgeMinutes = None \<Longrightarrow>
     cleanupStuckConversations tz now maxAgeMinutes tbl = (0, tbl)"
  by (simp add: cleanupStuckConversations_def)

text \<open>
  Across a change of the UTC offset the cutoff is not \<open>maxAgeMinutes\<close> minutes before
  \<open>now\<close>. In the zone \<open>new_york_2026\<close>, at 2026-11-01 06:15 UTC the cutoff of 30 minutes
  is 04:45 UTC, and a conversation in \<open>EXECUTING\<close> last updated 31 minutes ago is not
  swept; at 2026-03-08 07:10 UTC the cutoff is 07:40 UTC, and a conversation updated one
  minute ago is swept.
\<close>

lemma sweep_across_offset_change:
  "minutes_earlier new_york_2026 1793513700000 default_maxAgeMinutes = Some 1793508300000
   \<and> cleanupStuckConversations new_york_2026 1793513700000 default_maxAgeMinutes
        [executing_conversation\<lparr>updatedAt := 1793513700000 - 31 * 60000\<rparr>]
       = (0, [executing_conversation\<lparr>updatedAt := 1793513700000 - 31 * 60000\<rparr>])
   \<and> minutes_earlier new_york_2026 1772953800000 default_maxAgeMinutes = Some 1772955600000
   \<and> cleanupStuckConversations new_york_2026 1772953800000 default_maxAgeMinutes
        [executing_conversation\<lparr>updatedAt := 1772953800000 - 1 * 60000\<rparr>]
       = (1, [executing_conversation\<lparr>updatedAt := 1772953800000 - 1 * 60000, state := ERROR\<rparr>])"
proof -
  have a: "minutes_earlier new_york_2026 1793513700000 default_maxAgeMinutes = Some 1793508300000"
    and b: "minutes_earlier new_york_2026 1772953800000 default_maxAgeMinutes = Some 1772955600000"
    by (simp_all add: minutes_earlier_def new_york_2026_def TimeClip_def default_maxAgeMinutes_def)
  show ?thesis
    by (simp add: a b cleanup_by_cutoff [OF a] cleanup_by_cutoff [OF b] executing_conversation_def)
qed

text \<open>
  Claim C10, as amended. Staleness is measured by \<open>updatedAt\<close>, the time of the last
  write of the row's timestamp, not by the time spent in the state. Where the cutoff the
  code computes is \<open>maxAgeMinutes\<close> minutes before \<open>now\<close> (no change of the UTC offset in
  between), the sweep keeps every row in its place; a row in a state other than \<open>IDLE\<close>
  and \<open>COMPLETED\<close> whose \<open>updatedAt\<close> is more than \<open>maxAgeMinutes\<close> minutes old ends in
  \<open>ERROR\<close>; every other row is left exactly as it was. So the state of a row changes
  exactly when the row is in a state other than \<open>IDLE\<close>, \<open>COMPLETED\<close> and \<open>ERROR\<close> and
  has not been updated for longer than the threshold. With the default of 30 minutes, a
  conversation in \<open>EXECUTING\<close> not updated for 31 minutes becomes \<open>ERROR\<close> and one in
  \<open>COMPLETED\<close> for the same time is untouched (the witness).
\<close>

theorem cleanup_sweeps_stale:
  assumes "minutes_earlier tz now maxAgeMinutes = Some (now - maxAgeMinutes * 60000)"
  shows
  "length (snd (cleanupStuckConversations tz now maxAgeMinutes tbl)) = length tbl \<and>
   (\<forall>i < length tbl.
      (state (tbl ! i) \<notin> {IDLE, COMPLETED} \<and> now - updatedAt (tbl ! i) > maxAgeMinutes * 60000
         \<longrightarrow> state (snd (cleanupStuckConversations tz now maxAgeMinutes tbl) ! i) = ERROR
             \<and> conv_id (snd (cleanupStuckConversations tz now maxAgeMinutes tbl) ! i)
                 = conv_id (tbl ! i)) \<and>
      (\<not> (state (tbl ! i) \<notin> {IDLE, COMPLETED}
            \<and> now - updatedAt (tbl ! i) > maxAgeMinutes * 60000)
         \<longrightarrow> snd (cleanupStuckConversations tz now maxAgeMinutes tbl) ! i = tbl ! i) \<and>
      (state (snd (cleanupStuckConversations tz now maxAgeMinutes tbl) ! i) \<noteq> state (tbl ! i)
         \<longleftrightarrow> state (tbl ! i) \<notin> {IDLE, COMPLETED, ERROR} \<and>
             now - updatedAt (tbl ! i) > maxAgeMinutes * 60000))"
  unfolding cleanup_by_cutoff [OF assms]
  by auto

theorem cleanup_sweeps_stale_witness:
  "minutes_earlier utc_zone (31 * 60000) default_maxAgeMinutes
     = Some (31 * 60000 - default_maxAgeMinutes * 60000)
   \<and> map state (snd (cleanupStuckConversations utc_zone (31 * 60000) default_maxAgeMinutes
                     [executing_conversation, completed_conversation]))
       = [ERROR, COMPLETED]
   \<and> snd (cleanupStuckConversations utc_zone (31 * 60000) default_maxAgeMinutes
            [executing_conversation, completed_conversation]) ! 1
       = completed_conversation"
proof -
  have h: "minutes_earlier utc_zone (31 * 60000) default_maxAgeMinutes
             = Some (31 * 60000 - default_maxAgeMinutes * 60000)"
    by (rule minutes_earlier_utc) (simp add: default_maxAgeMinutes_def)
  have s: "state executing_conversation = EXECUTING" "updatedAt executing_conversation = 0"
    "state completed_conversation = COMPLETED"
    by (simp_all add: executing_conversation_def completed_conversation_def)
  let ?swept = "snd (cleanupStuckConversations utc_zone (31 * 60000) default_maxAgeMinutes
                       [executing_conversation, completed_conversation])"
  note t = cleanup_sweeps_stale [OF h, of "[executing_conversation, completed_conversation]"]
  from t have len: "length ?swept = 2" by simp
  from t have "\<forall>i<2. (state ([executing_conversation, completed_conversation] ! i)
                          \<notin> {IDLE, COMPLETED}
                        \<and> 31 * 60000 - updatedAt ([executing_conversation, completed_conversation] ! i)
                            > default_maxAgeMinutes * 60000
                        \<longrightarrow> state (?swept ! i) = ERROR)
                    \<and> (\<not> (state ([executing_conversation, completed_conversation] ! i)
                               \<notin> {IDLE, COMPLETED}
                            \<and> 31 * 60000
                                - updatedAt ([executing_conversation, completed_conversation] ! i)
                                > default_maxAgeMinutes * 60000)
                        \<longrightarrow> ?swept ! i = [executing_conversation, completed_conversation] ! i)"
    by simp
  then have e: "state (?swept ! 0) = ERROR" and c: "?swept ! 1 = completed_conversation"
    by (simp_all add: s default_maxAgeMinutes_def)
  from len obtain x y where xy: "?swept = [x, y]"
    by (cases ?swept; simp) (metis length_0_conv length_Suc_conv Suc_1 One_nat_def nat.inject)
  with e c s have "map state ?swept = [ERROR, COMPLETED]" by simp
  with h c show ?thesis by simp
qed

text \<open>
  Claim C10 as stated fails: a conversation in \<open>EXECUTING\<close> from time 0 on, to which a
  message is added after 30 minutes, has sat in \<open>EXECUTING\<close> for 31 minutes when the
  sweep runs at minute 31 with the default threshold, yet the sweep leaves it in
  \<open>EXECUTING\<close>, because the message has refreshed \<open>updatedAt\<close>.
\<close>

theorem sweep_measures_last_update:
  "state executing_conversation = EXECUTING
   \<and> updatedAt executing_conversation = 0
   \<and> addMessage (30 * 60000) [executing_conversation] ''conv-1''
       = (Inr (), [executing_conversation\<lparr>updatedAt := 30 * 60000\<rparr>])
   \<and> state (executing_conversation\<lparr>updatedAt := 30 * 60000\<rparr>) = EXECUTING
   \<and> cleanupStuckConversations utc_zone (31 * 60000) default_maxAgeMinutes
        (snd (addMessage (30 * 60000) [executing_conversation] ''conv-1''))
       = (0, [executing_conversation\<lparr>updatedAt := 30 * 60000\<rparr>])"
  by (simp add: cleanupStuckConversations_def minutes_earlier_def utc_zone_def TimeClip_def
        default_maxAgeMinutes_def stuck_iff addMessage_def findUnique_def
        executing_conversation_def)

lemma cleanup_count:
  "minutes_earlier tz now maxAgeMinutes = Some cutoff \<Longrightarrow>
     fst (cleanupStuckConversations tz now maxAgeMinutes tbl)
       = length (filter (\<lambda>c. state c \<noteq> IDLE \<and> state c \<noteq> COMPLETED \<and> updatedAt c < cutoff) tbl)"
  by (simp add: cleanup_by_cutoff)

section \<open>Properties of the dry-run simulation\<close>

lemma Array_from_ok:
  "len < 2 ^ 32 \<Longrightarrow> Array_from len f = Inr (map (\<lambda>i. f (int i)) [0 ..< nat (ToLength len)])"
  by (simp add: Array_from_def ToLength_def)

lemma Array_from_fails: "len \<ge> 2 ^ 32 \<Longrightarrow> Array_from len f = Inl RangeError"
  by (simp add: Array_from_def ToLength_def)

lemma fold_row_lengths:
  "fold (\<lambda>row sum. sum + int (length row)) rws n = n + int (length (concat rws))"
  by (induction rws arbitrary: n) simp_all

text \<open>An action without a \<open>case\<close> label is refused.\<close>

lemma simulate_unsupported:
  "a \<notin> set supported_actions \<Longrightarrow> simulate a p = Inl (UnsupportedAction a)"
  by (simp add: supported_actions_def simulate_def)

text \<open>The inputs on which \<open>simulate\<close> throws.\<close>

lemma simulate_fails_iff:
  "isl (simulate a p) \<longleftrightarrow>
     a \<notin> set supported_actions
     \<or> (a = ''update_cell'' \<or> a = ''update_range'') \<and> values' p = None
     \<or> a = ''format_cells'' \<and> format p = None
     \<or> a = ''create_chart'' \<and> chartType p = None
     \<or> (a = ''insert_row'' \<or> a = ''insert_column'' \<or> a = ''delete_row'') \<and> count_or_1 p \<ge> 2 ^ 32"
proof -
  have u: "isl (simulateUpdateCells p) \<longleftrightarrow> values' p = None"
    by (simp add: simulateUpdateCells_def countCellsInRange_def split: option.splits)
  have f: "isl (simulateFormatCells p) \<longleftrightarrow> format p = None"
    by (simp add: simulateFormatCells_def describeFormat_throws_def Let_def)
  have c: "isl (simulateCreateChart p) \<longleftrightarrow> chartType p = None"
    by (simp add: simulateCreateChart_def split: option.splits)
  have ir: "isl (simulateInsertRows p) \<longleftrightarrow> count_or_1 p \<ge> 2 ^ 32"
    by (cases "count_or_1 p < 2 ^ 32")
       (simp_all add: simulateInsertRows_def Let_def Array_from_ok Array_from_fails)
  have ic: "isl (simulateInsertColumns p) \<longleftrightarrow> count_or_1 p \<ge> 2 ^ 32"
    by (cases "count_or_1 p < 2 ^ 32")
       (simp_all add: simulateInsertColumns_def Let_def Array_from_ok Array_from_fails)
  have dr: "isl (simulateDeleteRows p) \<longleftrightarrow> count_or_1 p \<ge> 2 ^ 32"
    by (cases "count_or_1 p < 2 ^ 32")
       (simp_all add: simulateDeleteRows_def Let_def Array_from_ok Array_from_fails)
  have others: "\<not> isl (simulateCreateSpreadsheet p)" "\<not> isl (simulateDeleteColumns p)"
    "\<not> isl (simulateClearRange p)" "\<not> isl (simulateSortData p)" "\<not> isl (simulateMergeCells p)"
    "\<not> isl (simulateFreezeRows p)" "\<not> isl (simulateApplyFormula p)"
    "\<not> isl (simulateAppendTransaction p)" "\<not> isl (simulateCreateTallySheet p)"
    by (simp_all add: simulateCreateSpreadsheet_def simulateDeleteColumns_def
          simulateClearRange_def simulateSortData_def simulateMergeCells_def
          simulateFreezeRows_def simulateApplyFormula_def simulateAppendTransaction_def
          simulateCreateTallySheet_def Let_def)
  show ?thesis
    unfolding simulate_def supported_actions_def
    by (simp add: u f c ir ic dr others)
qed

text \<open>
  Risk and reversibility of the destructive actions and of sorting: for every parameter
  set for \<open>delete_column\<close>, \<open>clear_range\<close> and \<open>sort_data\<close>, and for \<open>delete_row\<close>
  as long as the row count is below \<open>2^32\<close>.
\<close>

lemma simulate_delete_column:
  "\<exists>r. simulate ''delete_column'' p = Inr r \<and> risk_level r = High \<and> reversible r"
  by (simp add: simulate_def simulateDeleteColumns_def Let_def)

lemma simulate_clear_range:
  "\<exists>r. simulate ''clear_range'' p = Inr r \<and> risk_level r = High \<and> reversible r"
  by (simp add: simulate_def simulateClearRange_def Let_def)

lemma simulate_sort_data:
  "\<exists>r. simulate ''sort_data'' p = Inr r \<and> risk_level r = Medium \<and> \<not> reversible r"
  by (simp add: simulate_def simulateSortData_def)

lemma simulate_delete_row:
  "count_or_1 p < 2 ^ 32 \<Longrightarrow>
     \<exists>r. simulate ''delete_row'' p = Inr r \<and> risk_level r = High \<and> reversible r"
  by (simp add: simulate_def simulateDeleteRows_def Let_def Array_from_ok)

lemma simulate_delete_row_fails:
  "count_or_1 p \<ge> 2 ^ 32 \<Longrightarrow> simulate ''delete_row'' p = Inl RangeError"
  by (simp add: simulate_def simulateDeleteRows_def Let_def Array_from_fails)

text \<open>
  Claim C6. The claim holds except where \<open>simulate\<close> throws: for \<open>delete_row\<close> with a
  count of \<open>2^32\<close> the array of affected rows cannot be built, and the simulation fails
  with a \<open>RangeError\<close> instead of returning a high-risk report.
\<close>

theorem simulate_delete_row_throws:
  "simulate ''delete_row'' (no_parameters\<lparr>startIndex := Some 0, count := Some 4294967296\<rparr>)
     = Inl RangeError"
  by (simp add: simulate_delete_row_fails count_or_1_def no_parameters_def)

text \<open>
  The thresholds of the updates and insertions: more than 100 cells, more than 10 rows,
  more than 5 columns give \<open>Medium\<close>, anything else \<open>Low\<close>, as long as the values are
  present and the count is below \<open>2^32\<close>.
\<close>

lemma simulate_update:
  "a = ''update_cell'' \<or> a = ''update_range'' \<Longrightarrow> values' p = Some rws \<Longrightarrow>
     \<exists>r. simulate a p = Inr r \<and>
         risk_level r = (if length (concat rws) > 100 then Medium else Low)"
  by (auto simp: simulate_def simulateUpdateCells_def countCellsInRange_def fold_row_lengths)

lemma simulate_insert_row:
  "count_or_1 p < 2 ^ 32 \<Longrightarrow>
     \<exists>r. simulate ''insert_row'' p = Inr r \<and>
         risk_level r = (if count_or_1 p > 10 then Medium else Low)"
  by (simp add: simulate_def simulateInsertRows_def Let_def Array_from_ok)

lemma simulate_insert_column:
  "count_or_1 p < 2 ^ 32 \<Longrightarrow>
     \<exists>r. simulate ''insert_column'' p = Inr r \<and>
         risk_level r = (if count_or_1 p > 5 then Medium else Low)"
  by (simp add: simulate_def simulateInsertColumns_def Let_def Array_from_ok)

text \<open>
  Claim C7. The thresholds are as claimed wherever \<open>simulate\<close> returns; for \<open>insert_row\<close>
  and \<open>insert_column\<close> with a count of \<open>2^32\<close>, which exceeds 10 and 5, it throws a
  \<open>RangeError\<close> instead of returning a medium-risk report.
\<close>

theorem simulate_insert_throws:
  "simulate ''insert_row'' (no_parameters\<lparr>startIndex := Some 0, count := Some 4294967296\<rparr>)
     = Inl RangeError
   \<and> simulate ''insert_column'' (no_parameters\<lparr>startIndex := Some 0, count := Some 4294967296\<rparr>)
     = Inl RangeError"
  by (simp add: simulate_def simulateInsertRows_def simulateInsertColumns_def Let_def
        Array_from_fails count_or_1_def no_parameters_def)

text \<open>
  Claim C9. \<open>simulate\<close> also fails for supported actions: \<open>update_cell\<close> without
  \<open>values\<close> and \<open>create_chart\<close> without \<open>chartType\<close> throw a \<open>TypeError\<close>.
\<close>

theorem simulate_supported_action_throws:
  "''update_cell'' \<in> set supported_actions
   \<and> simulate ''update_cell'' (no_parameters\<lparr>range := Some ''A1''\<rparr>) = Inl TypeError
   \<and> ''create_chart'' \<in> set supported_actions
   \<and> simulate ''create_chart'' no_parameters = Inl TypeError"
  by (simp add: supported_actions_def simulate_def simulateUpdateCells_def
        countCellsInRange_def simulateCreateChart_def no_parameters_def)

section \<open>Properties of the confirmation gate\<close>

lemma simulate_delete_row_intent:
  "simulate (action (delete_row_intent hint)) (parameters (delete_row_intent hint))
     = Inr delete_row_report"
  by (simp add: delete_row_intent_def simulate_def simulateDeleteRows_def count_or_1_def
        Array_from_def ToLength_def no_parameters_def js_add_def delete_row_report_def)

lemma simulate_update_cell_intent:
  "simulate (action (update_cell_intent hint conf)) (parameters (update_cell_intent hint conf))
     = Inr one_cell_report"
  by (simp add: update_cell_intent_def simulate_def simulateUpdateCells_def
        countCellsInRange_def expandRange_def no_parameters_def one_cell_report_def)

lemma dry_run_POST_classified:
  assumes "findUnique tbl cid = Some c" and "state c = INTENT_CLASSIFIED" and "cid \<noteq> []"
    and "action i \<noteq> []" and "simulate (action i) (parameters i) = Inr r"
  shows "dry_run_POST (dry_run_body i sid (Some cid)) tbl =
           (DryRunOk r (risk_level r = High \<or> \<not> reversible r),
            map (\<lambda>x. if conv_id x = cid then x\<lparr>state := nextState r\<rparr> else x) tbl)"
  using assms
  by (simp add: dry_run_POST_def dry_run_body_def truthy_def getCurrentState_def
        transitionState_def isValidTransition_def update_state_def nextState_def Let_def)

text \<open>
  Claim C1, as amended. For a request that passes validation, the executor answers
  \<open>requires confirmation\<close> exactly when the intent's own \<open>confirmationRequired\<close> hint is
  true and the caller passed no confirmation flag, and then nothing is changed. The
  dry-run report is not an input of the executor.
\<close>

theorem execute_gate:
  assumes "action (intent body) \<in> set schema_actions"
    and "0 \<le> confidence (intent body)" and "confidence (intent body) \<le> 1"
  shows "(fst (execute_POST env now uid body w) = RequiresConfirmation
            \<longleftrightarrow> confirmationRequired (intent body) \<and> \<not> confirmed body)
         \<and> (confirmationRequired (intent body) \<and> \<not> confirmed body
              \<longrightarrow> snd (execute_POST env now uid body w) = w)"
  using assms
  by (auto simp: execute_POST_def Let_def split: prod.splits sum.splits bool.splits)

theorem execute_gate_witness:
  "action (intent (delete_row_body True)) \<in> set schema_actions
   \<and> 0 \<le> confidence (intent (delete_row_body True))
   \<and> confidence (intent (delete_row_body True)) \<le> 1
   \<and> execute_POST example_env 0 ''user-1'' (delete_row_body True) empty_world
        = (RequiresConfirmation, empty_world)"
proof -
  have a: "action (intent (delete_row_body True)) \<in> set schema_actions"
    by (simp add: delete_row_body_def delete_row_intent_def schema_actions_def)
  have b: "0 \<le> confidence (intent (delete_row_body True))"
    and c: "confidence (intent (delete_row_body True)) \<le> 1"
    by (simp_all add: delete_row_body_def delete_row_intent_def)
  have d: "confirmationRequired (intent (delete_row_body True)) \<and> \<not> confirmed (delete_row_body True)"
    by (simp add: delete_row_body_def delete_row_intent_def)
  from execute_gate [OF a b c, of example_env 0 "''user-1''" empty_world] d
  have "fst (execute_POST example_env 0 ''user-1'' (delete_row_body True) empty_world)
          = RequiresConfirmation"
    and "snd (execute_POST example_env 0 ''user-1'' (delete_row_body True) empty_world)
          = empty_world"
    by blast+
  then have "execute_POST example_env 0 ''user-1'' (delete_row_body True) empty_world
        = (RequiresConfirmation, empty_world)"
    by (simp add: prod_eq_iff)
  with a b c show ?thesis by blast
qed

text \<open>
  Claim C1 as stated fails: the dry-run report of a \<open>delete_row\<close> intent is high-risk, yet
  with the hint false and no confirmation flag the executor calls \<open>deleteRows\<close> and
  reports success.
\<close>

theorem execute_ignores_dry_run_risk:
  "(case simulate (action (delete_row_intent False)) (parameters (delete_row_intent False)) of
      Inr report \<Rightarrow> risk_level report = High | Inl e \<Rightarrow> False)
   \<and> confirmationRequired (delete_row_intent False) = False
   \<and> confirmed (delete_row_body False) = False
   \<and> fst (execute_POST example_env 0 ''user-1'' (delete_row_body False) empty_world)
        = ExecSucceeded \<lparr>result_sheetId = Some ''sheet-1'', result_sheetName = None\<rparr>
   \<and> sheets_log (snd (execute_POST example_env 0 ''user-1'' (delete_row_body False) empty_world))
        = [DeleteRows ''sheet-1'' 0 (Some 4) (Some 1)]"
  by (simp add: simulate_def simulateDeleteRows_def count_or_1_def Array_from_def ToLength_def
        no_parameters_def delete_row_intent_def delete_row_body_def execute_POST_def
        schema_actions_def example_env_def empty_world_def request_transition_def truthy_def
        executeAction_def exec_call_def invoke_def num_or_def Let_def createSnapshot_def)

text \<open>
  Claim C2, as amended. For a dry-run request built from an intent, on a conversation in
  \<open>INTENT_CLASSIFIED\<close> and with a simulation that returns a report, the route moves the
  conversation to \<open>CONFIRMATION_REQUIRED\<close> if the report is high-risk or not reversible
  and to \<open>READY_TO_EXECUTE\<close> otherwise. Neither the confidence nor the classifier's hint
  enters this choice; the confidence threshold of 0.60 is applied by \<open>validateIntent\<close>,
  which calls an intent invalid exactly when the confidence is below 0.60 or a
  clarification is asked for, and which moves no conversation.
\<close>

theorem dry_run_dispatch:
  assumes "findUnique tbl cid = Some c" and "state c = INTENT_CLASSIFIED" and "cid \<noteq> []"
    and "action i \<noteq> []" and "simulate (action i) (parameters i) = Inr r"
  shows "dry_run_POST (dry_run_body i sid (Some cid)) tbl =
           (DryRunOk r (risk_level r = High \<or> \<not> reversible r),
            map (\<lambda>x. if conv_id x = cid then x\<lparr>state := nextState r\<rparr> else x) tbl)
         \<and> findUnique (snd (dry_run_POST (dry_run_body i sid (Some cid)) tbl)) cid
             = Some (c\<lparr>state := nextState r\<rparr>)
         \<and> nextState r = (if risk_level r = High \<or> \<not> reversible r
                           then CONFIRMATION_REQUIRED else READY_TO_EXECUTE)
         \<and> (valid (validateIntent i) \<longleftrightarrow>
               \<not> confidence i < 6 / 10 \<and> \<not> truthy (clarificationNeeded i))"
proof -
  have c: "conv_id c = cid"
    using assms(1) by (rule findUnique_conv_id)
  show ?thesis
    using dry_run_POST_classified [OF assms] assms(1) c
    by (simp add: findUnique_map nextState_def validateIntent_def)
qed

theorem dry_run_dispatch_witness:
  "findUnique [classified_conversation] ''conv-1'' = Some classified_conversation
   \<and> state classified_conversation = INTENT_CLASSIFIED
   \<and> simulate (action (delete_row_intent False)) (parameters (delete_row_intent False))
       = Inr delete_row_report
   \<and> findUnique (snd (dry_run_POST (dry_run_body (delete_row_intent False) (Some ''sheet-1'')
                                      (Some ''conv-1'')) [classified_conversation])) ''conv-1''
       = Some (classified_conversation\<lparr>state := CONFIRMATION_REQUIRED\<rparr>)"
proof -
  have f: "findUnique [classified_conversation] ''conv-1'' = Some classified_conversation"
    by (simp add: findUnique_def classified_conversation_def)
  have s: "state classified_conversation = INTENT_CLASSIFIED"
    by (simp add: classified_conversation_def)
  have a: "action (delete_row_intent False) \<noteq> []"
    by (simp add: delete_row_intent_def)
  have n: "nextState delete_row_report = CONFIRMATION_REQUIRED"
    by (simp add: nextState_def delete_row_report_def)
  have "findUnique (snd (dry_run_POST (dry_run_body (delete_row_intent False) (Some ''sheet-1'')
                                      (Some ''conv-1'')) [classified_conversation])) ''conv-1''
       = Some (classified_conversation\<lparr>state := nextState delete_row_report\<rparr>)"
    using dry_run_dispatch [OF f s _ a simulate_delete_row_intent, of "Some ''sheet-1''"]
    by blast
  with n f s simulate_delete_row_intent show ?thesis by simp
qed

text \<open>
  Claim C2 as stated fails: a one-cell update classified with confidence 0.4 is moved to
  \<open>READY_TO_EXECUTE\<close>, where the claim asks for \<open>CLARIFICATION_REQUIRED\<close>; the same
  update with confidence 0.9 and the hint set is moved to \<open>READY_TO_EXECUTE\<close>, where
  the claim asks for \<open>CONFIRMATION_REQUIRED\<close>.
\<close>

theorem dispatch_ignores_confidence_and_hint:
  "snd (dry_run_POST (dry_run_body (update_cell_intent False (4 / 10)) (Some ''sheet-1'')
                        (Some ''conv-1'')) [classified_conversation])
     = [classified_conversation\<lparr>state := READY_TO_EXECUTE\<rparr>]
   \<and> spec_dispatch (update_cell_intent False (4 / 10)) one_cell_report = CLARIFICATION_REQUIRED
   \<and> snd (dry_run_POST (dry_run_body (update_cell_intent True (9 / 10)) (Some ''sheet-1'')
                        (Some ''conv-1'')) [classified_conversation])
     = [classified_conversation\<lparr>state := READY_TO_EXECUTE\<rparr>]
   \<and> spec_dispatch (update_cell_intent True (9 / 10)) one_cell_report = CONFIRMATION_REQUIRED"
proof -
  have f: "findUnique [classified_conversation] ''conv-1'' = Some classified_conversation"
    by (simp add: findUnique_def classified_conversation_def)
  have s: "state classified_conversation = INTENT_CLASSIFIED"
    by (simp add: classified_conversation_def)
  have a: "action (update_cell_intent hint conf) \<noteq> []" for hint conf
    by (simp add: update_cell_intent_def)
  have n: "nextState one_cell_report = READY_TO_EXECUTE"
    by (simp add: nextState_def one_cell_report_def)
  have c: "conv_id classified_conversation = ''conv-1''"
    by (simp add: classified_conversation_def)
  have "snd (dry_run_POST (dry_run_body (update_cell_intent hint conf) (Some ''sheet-1'')
                        (Some ''conv-1'')) [classified_conversation])
     = [classified_conversation\<lparr>state := READY_TO_EXECUTE\<rparr>]" for hint conf
    using dry_run_POST_classified [OF f s _ a simulate_update_cell_intent] n c by simp
  moreover have "spec_dispatch (update_cell_intent False (4 / 10)) one_cell_report
                   = CLARIFICATION_REQUIRED"
    by (simp add: spec_dispatch_def update_cell_intent_def)
  moreover have "spec_dispatch (update_cell_intent True (9 / 10)) one_cell_report
                   = CONFIRMATION_REQUIRED"
    by (simp add: spec_dispatch_def update_cell_intent_def)
  ultimately show ?thesis by simp
qed

section \<open>Properties of the rollback service\<close>

lemma no_column_deletion: "\<not> is_column_deletion (api_request_of c)"
  by (cases c) simp_all

lemma performUndo_delete_inserted_column:
  assumes "undoAction rb = ''delete_inserted_column''"
  shows "performUndo env rb calls =
           ((if call_ok env (DeleteRows (rb_sheetId rb) (num_or (sheetId (undoData rb)) 0)
                               (startIndex (undoData rb)) (count (undoData rb)))
             then Inr () else Inl SheetsCallFailed),
            calls @ [DeleteRows (rb_sheetId rb) (num_or (sheetId (undoData rb)) 0)
                       (startIndex (undoData rb)) (count (undoData rb))])"
  using assms by (simp add: performUndo_def undo_call_def invoke_def Let_def)

lemma snapshot_of_insert_column:
  "undoAction (fst (createSnapshot env now uid aid sid ''insert_column'' p cd tbl))
     = ''delete_inserted_column''
   \<and> startIndex (undoData (fst (createSnapshot env now uid aid sid ''insert_column'' p cd tbl)))
       = startIndex p
   \<and> count (undoData (fst (createSnapshot env now uid aid sid ''insert_column'' p cd tbl)))
       = Some (num_or (count p) 1)
   \<and> sheetId (undoData (fst (createSnapshot env now uid aid sid ''insert_column'' p cd tbl)))
       = sheetId p
   \<and> rb_sheetId (fst (createSnapshot env now uid aid sid ''insert_column'' p cd tbl)) = sid"
  by (simp add: createSnapshot_def getUndoAction_def undoMap_def generateUndoData_def
        no_undoData_def Let_def)

lemma findFirst_mark_executed:
  "findFirst_rollback (mark_executed tbl rid) rid uid = None"
  by (induction tbl) (auto simp: findFirst_rollback_def mark_executed_def)

text \<open>
  Claim C3. The undo of the snapshot taken for an \<open>insert_column\<close> action calls
  \<open>deleteRows\<close> with the stored start index and count, which sends a \<open>deleteDimension\<close>
  request with dimension \<open>ROWS\<close>; the same holds for every rollback record whose undo
  action is \<open>delete_inserted_column\<close>; and no method of the backend service sends a
  \<open>deleteDimension\<close> request with dimension \<open>COLUMNS\<close>.
\<close>

theorem undo_of_insert_column_deletes_rows:
  "snd (performUndo env (fst (createSnapshot env' now uid aid sid ''insert_column'' p cd tbl))
          calls)
     = calls @ [DeleteRows sid (num_or (sheetId p) 0) (startIndex p) (Some (num_or (count p) 1))]
   \<and> api_request_of
         (DeleteRows sid (num_or (sheetId p) 0) (startIndex p) (Some (num_or (count p) 1)))
       = DeleteDimension (num_or (sheetId p) 0) ROWS (startIndex p)
           (js_plus (startIndex p) (Some (num_or (count p) 1)))
   \<and> (\<forall>rb. undoAction rb = ''delete_inserted_column'' \<longrightarrow>
         snd (performUndo env rb calls)
           = calls @ [DeleteRows (rb_sheetId rb) (num_or (sheetId (undoData rb)) 0)
                        (startIndex (undoData rb)) (count (undoData rb))])
   \<and> (\<forall>c. \<not> is_column_deletion (api_request_of c))"
  using snapshot_of_insert_column [of env' now uid aid sid p cd tbl]
  by (simp add: performUndo_delete_inserted_column no_column_deletion)

theorem undo_of_insert_column_deletes_rows_witness:
  "sheets_log (snd (executeUndo example_env 1000 ''user-1'' ''rollback-1''
                      (snd (execute_POST example_env 0 ''user-1'' insert_column_body empty_world))))
     = [InsertColumns ''sheet-1'' 0 (Some 2) (Some 3), DeleteRows ''sheet-1'' 0 (Some 2) (Some 3)]
   \<and> api_request_of (DeleteRows ''sheet-1'' 0 (Some 2) (Some 3))
       = DeleteDimension 0 ROWS (Some 2) (Some 5)"
proof -
  let ?w = "snd (execute_POST example_env 0 ''user-1'' insert_column_body empty_world)"
  let ?rb = "fst (createSnapshot example_env 0 ''user-1'' ''audit-1'' ''sheet-1'' ''insert_column''
                    (no_parameters\<lparr>startIndex := Some 2, count := Some 3\<rparr>) None [])"
  have w: "?w = \<lparr>conversations = [], rollbackActions = [?rb],
                 auditLogs = [\<lparr>audit_id = ''audit-1'', audit_userId = ''user-1'',
                               audit_action = ''insert_column'',
                               audit_sheetId = Some ''sheet-1'', audit_success = True\<rparr>],
                 sheets_log = [InsertColumns ''sheet-1'' 0 (Some 2) (Some 3)]\<rparr>"
    by (simp add: execute_POST_def insert_column_body_def schema_actions_def example_env_def
          empty_world_def request_transition_def truthy_def executeAction_def exec_call_def
          invoke_def num_or_def no_parameters_def Let_def createSnapshot_def)
  have u: "snd (performUndo example_env ?rb [InsertColumns ''sheet-1'' 0 (Some 2) (Some 3)])
             = [InsertColumns ''sheet-1'' 0 (Some 2) (Some 3),
                DeleteRows ''sheet-1'' 0 (Some 2) (Some 3)]"
    using undo_of_insert_column_deletes_rows
            [of example_env example_env 0 "''user-1''" "''audit-1''" "''sheet-1''"
                "no_parameters\<lparr>startIndex := Some 2, count := Some 3\<rparr>" None "[]"
                "[InsertColumns ''sheet-1'' 0 (Some 2) (Some 3)]"]
    by (simp add: num_or_def no_parameters_def)
  have f: "findFirst_rollback [?rb] ''rollback-1'' ''user-1'' = Some ?rb"
    by (simp add: findFirst_rollback_def createSnapshot_def example_env_def Let_def)
  have e: "expiresAt ?rb = 86400000"
    by (simp add: createSnapshot_def ROLLBACK_WINDOW_HOURS_def hours_later_def example_env_def
          utc_zone_def Let_def)
  have "sheets_log (snd (executeUndo example_env 1000 ''user-1'' ''rollback-1'' ?w))
          = snd (performUndo example_env ?rb [InsertColumns ''sheet-1'' 0 (Some 2) (Some 3)])"
    unfolding w
    by (simp add: executeUndo_def f e split: prod.splits sum.splits) (simp add: example_env_def)
  with u show ?thesis by (simp add: js_plus_def)
qed

text \<open>
  Claim C8. \<open>executeUndo\<close> fails with the not-found-or-already-executed error when no
  un-executed record of the calling user has the id, and with the expired error when the
  record is found and the call comes after its \<open>expiresAt\<close>; in both cases nothing is
  changed. When the record is found, not expired, the user has a token and the undo
  handler returns, the call succeeds, the handler's calls have been made and the record
  is marked executed. A call that succeeds is always of that kind, and every later call
  for the same id and user, at whatever time, fails with the not-found error.
\<close>

theorem executeUndo_outcomes:
  "(findFirst_rollback (rollbackActions w) rid uid = None \<longrightarrow>
      executeUndo env now uid rid w = (Inl NotFoundOrAlreadyExecuted, w))
   \<and> (\<forall>r. findFirst_rollback (rollbackActions w) rid uid = Some r \<and> now > expiresAt r \<longrightarrow>
          executeUndo env now uid rid w = (Inl UndoWindowExpired, w))
   \<and> (\<forall>r. findFirst_rollback (rollbackActions w) rid uid = Some r \<and> \<not> now > expiresAt r
            \<and> has_token env uid \<and> fst (performUndo env r (sheets_log w)) = Inr () \<longrightarrow>
          executeUndo env now uid rid w =
            (Inr (''Successfully undid action: '' @ undoAction r),
             w\<lparr>sheets_log := snd (performUndo env r (sheets_log w)),
               rollbackActions := mark_executed (rollbackActions w) rid\<rparr>))
   \<and> (\<forall>msg w'. executeUndo env now uid rid w = (Inr msg, w') \<longrightarrow>
          (\<exists>r. findFirst_rollback (rollbackActions w) rid uid = Some r \<and> \<not> now > expiresAt r
               \<and> fst (performUndo env r (sheets_log w)) = Inr ()
               \<and> sheets_log w' = snd (performUndo env r (sheets_log w)))
          \<and> rollbackActions w' = mark_executed (rollbackActions w) rid
          \<and> (\<forall>now'. executeUndo env now' uid rid w' = (Inl NotFoundOrAlreadyExecuted, w')))"
proof (intro conjI allI impI)
  assume "findFirst_rollback (rollbackActions w) rid uid = None"
  then show "executeUndo env now uid rid w = (Inl NotFoundOrAlreadyExecuted, w)"
    by (simp add: executeUndo_def)
next
  fix r assume "findFirst_rollback (rollbackActions w) rid uid = Some r \<and> now > expiresAt r"
  then show "executeUndo env now uid rid w = (Inl UndoWindowExpired, w)"
    by (simp add: executeUndo_def)
next
  fix r
  assume "findFirst_rollback (rollbackActions w) rid uid = Some r \<and> \<not> now > expiresAt r
            \<and> has_token env uid \<and> fst (performUndo env r (sheets_log w)) = Inr ()"
  then show "executeUndo env now uid rid w =
            (Inr (''Successfully undid action: '' @ undoAction r),
             w\<lparr>sheets_log := snd (performUndo env r (sheets_log w)),
               rollbackActions := mark_executed (rollbackActions w) rid\<rparr>)"
    by (cases "performUndo env r (sheets_log w)") (simp add: executeUndo_def)
next
  fix msg w'
  assume ok: "executeUndo env now uid rid w = (Inr msg, w')"
  then obtain r where r: "findFirst_rollback (rollbackActions w) rid uid = Some r"
    by (cases "findFirst_rollback (rollbackActions w) rid uid") (auto simp: executeUndo_def)
  from ok r have e: "\<not> now > expiresAt r" and t: "has_token env uid"
    by (auto simp: executeUndo_def split: if_splits)
  obtain res calls' where p: "performUndo env r (sheets_log w) = (res, calls')"
    by (cases "performUndo env r (sheets_log w)")
  from ok r e t p have res: "res = Inr ()"
    and w': "w' = w\<lparr>sheets_log := calls',
                     rollbackActions := mark_executed (rollbackActions w) rid\<rparr>"
    by (cases res; simp add: executeUndo_def)+
  from r e p res w'
  show "\<exists>r. findFirst_rollback (rollbackActions w) rid uid = Some r \<and> \<not> now > expiresAt r
               \<and> fst (performUndo env r (sheets_log w)) = Inr ()
               \<and> sheets_log w' = snd (performUndo env r (sheets_log w))"
    by simp
  from w' show m: "rollbackActions w' = mark_executed (rollbackActions w) rid" by simp
  fix now'
  show "executeUndo env now' uid rid w' = (Inl NotFoundOrAlreadyExecuted, w')"
    by (simp add: executeUndo_def m findFirst_mark_executed)
qed

theorem executeUndo_outcomes_witness:
  "executeUndo example_env 1000 ''user-2'' ''rollback-1'' undo_world
     = (Inl NotFoundOrAlreadyExecuted, undo_world)
   \<and> executeUndo example_env 86400001 ''user-1'' ''rollback-1'' undo_world
       = (Inl UndoWindowExpired, undo_world)
   \<and> executeUndo example_env 1000 ''user-1'' ''rollback-1'' undo_world
       = (Inr ''Successfully undid action: delete_inserted_row'',
          undo_world\<lparr>sheets_log := [DeleteRows ''sheet-1'' 0 (Some 2) (Some 1)],
                      rollbackActions := [inserted_row_rollback\<lparr>executed := True\<rparr>]\<rparr>)
   \<and> fst (executeUndo example_env 2000 ''user-1'' ''rollback-1''
             (undo_world\<lparr>sheets_log := [DeleteRows ''sheet-1'' 0 (Some 2) (Some 1)],
                         rollbackActions := [inserted_row_rollback\<lparr>executed := True\<rparr>]\<rparr>))
       = Inl NotFoundOrAlreadyExecuted"
proof -
  have n: "findFirst_rollback (rollbackActions undo_world) ''rollback-1'' ''user-2'' = None"
    by (simp add: undo_world_def findFirst_rollback_def inserted_row_rollback_def)
  have f: "findFirst_rollback (rollbackActions undo_world) ''rollback-1'' ''user-1''
             = Some inserted_row_rollback"
    by (simp add: undo_world_def findFirst_rollback_def inserted_row_rollback_def)
  have e: "expiresAt inserted_row_rollback = 86400000"
    by (simp add: inserted_row_rollback_def)
  have t: "has_token example_env ''user-1''" by (simp add: example_env_def)
  have p: "performUndo example_env inserted_row_rollback (sheets_log undo_world)
             = (Inr (), [DeleteRows ''sheet-1'' 0 (Some 2) (Some 1)])"
    by (simp add: performUndo_def inserted_row_rollback_def undo_call_def invoke_def
          example_env_def undo_world_def empty_world_def no_undoData_def num_or_def)
  have m: "mark_executed (rollbackActions undo_world) ''rollback-1''
             = [inserted_row_rollback\<lparr>executed := True\<rparr>]"
    by (simp add: mark_executed_def undo_world_def inserted_row_rollback_def)
  have u: "undoAction inserted_row_rollback = ''delete_inserted_row''"
    by (simp add: inserted_row_rollback_def)
  note o1 = executeUndo_outcomes [of undo_world "''rollback-1''" "''user-2''" example_env 1000]
  note o2 = executeUndo_outcomes [of undo_world "''rollback-1''" "''user-1''" example_env 86400001]
  note o3 = executeUndo_outcomes [of undo_world "''rollback-1''" "''user-1''" example_env 1000]
  have a: "executeUndo example_env 1000 ''user-2'' ''rollback-1'' undo_world
             = (Inl NotFoundOrAlreadyExecuted, undo_world)"
    using o1 n by blast
  have b: "executeUndo example_env 86400001 ''user-1'' ''rollback-1'' undo_world
             = (Inl UndoWindowExpired, undo_world)"
    using o2 f e by simp
  have c: "executeUndo example_env 1000 ''user-1'' ''rollback-1'' undo_world
       = (Inr ''Successfully undid action: delete_inserted_row'',
          undo_world\<lparr>sheets_log := [DeleteRows ''sheet-1'' 0 (Some 2) (Some 1)],
                      rollbackActions := [inserted_row_rollback\<lparr>executed := True\<rparr>]\<rparr>)"
    using o3 f e t p m u by simp
  have d: "executeUndo example_env 2000 ''user-1'' ''rollback-1''
             (undo_world\<lparr>sheets_log := [DeleteRows ''sheet-1'' 0 (Some 2) (Some 1)],
                         rollbackActions := [inserted_row_rollback\<lparr>executed := True\<rparr>]\<rparr>)
       = (Inl NotFoundOrAlreadyExecuted,
          undo_world\<lparr>sheets_log := [DeleteRows ''sheet-1'' 0 (Some 2) (Some 1)],
                      rollbackActions := [inserted_row_rollback\<lparr>executed := True\<rparr>]\<rparr>)"
    using o3 c by blast
  from a b c d show ?thesis by simp
qed

end
